theory Spec2Isabelle
  imports Main "HOL-Library.Sublist"
begin

section \<open>JavaScript values\<close>

text \<open>
  The where parser and the query factory take values of type \<open>any\<close>. They are modelled
  by the datatype \<open>jsval\<close>: \<open>null\<close>, \<open>undefined\<close>, booleans, numbers, strings (lists
  of 8-bit code units), arrays, plain data objects as the list of their own enumerable
  properties in \<open>Object.entries\<close> order, and instances of the class \<open>Where\<close>.
  \<^item> \<open>JNum n\<close> is an integer that a double holds exactly and that JavaScript writes with
    all its digits, which it does below \<open>10^21\<close> in magnitude.
  \<^item> \<open>JWhere props built\<close> is an instance of \<open>Where\<close>: \<open>props\<close> are its own enumerable
    properties and \<open>built\<close> is what its method \<open>build()\<close> returns, \<open>None\<close> for a
    falsy result. Of its methods the code reads \<open>build\<close> alone.
  \<^item> \<open>JValuesFn\<close> is the one function value that the code itself can come by: the
    native \<open>Array.prototype.values\<close>, which \<open>value.values\<close> finds on an array.
  Other function values, \<open>Date\<close> objects and objects that redefine \<open>toString\<close>,
  \<open>valueOf\<close> or \<open>toJSON\<close> are outside the model.

  The classes \<open>Condition\<close>, \<open>ConditionWithManyKeys\<close>, \<open>VariedCondition\<close> and
  \<open>NestedCondition\<close> come from the package @soapjs/soap, as \<open>Where\<close> does; their fields
  are the ones the parser reads: \<open>left\<close>, \<open>operator\<close>, \<open>right\<close>; \<open>conditions\<close>,
  \<open>operator\<close>; \<open>result\<close>.
\<close>

datatype jsval =
    JNull
  | JUndefined
  | JBool bool
  | JNum int
  | JStr string
  | JArr "jsval list"
  | JObj "(string \<times> jsval) list"
  | JValuesFn
  | JWhere "(string \<times> jsval) list" "cond option"
and cond =
    Condition string string jsval
  | ConditionWithManyKeys "string list" string jsval
  | VariedCondition "cond list" string
  | NestedCondition cond

text \<open>
  \<open>TypeError\<close> is the exception of the runtime: a property read on \<open>null\<close> or
  \<open>undefined\<close>, a call of something that is no function.
\<close>

datatype error = TypeError

datatype js_type = TUndefined | TObject | TBoolean | TNumber | TString | TFunction

abbreviation backtick :: char where "backtick \<equiv> CHR 0x60"
abbreviation squote :: char where "squote \<equiv> CHR 0x27"
abbreviation dquote :: char where "dquote \<equiv> CHR 0x22"
abbreviation backslash :: char where "backslash \<equiv> CHR 0x5C"
abbreviation qmark :: char where "qmark \<equiv> CHR 0x3F"

fun typeof :: "jsval \<Rightarrow> js_type" where
  "typeof JNull = TObject"
| "typeof JUndefined = TUndefined"
| "typeof (JBool b) = TBoolean"
| "typeof (JNum n) = TNumber"
| "typeof (JStr s) = TString"
| "typeof (JArr xs) = TObject"
| "typeof (JObj kvs) = TObject"
| "typeof JValuesFn = TFunction"
| "typeof (JWhere props built) = TObject"

text \<open>Truthiness, as tested by \<open>if (v)\<close> and \<open>!v\<close>.\<close>

fun truthy :: "jsval \<Rightarrow> bool" where
  "truthy JNull = False"
| "truthy JUndefined = False"
| "truthy (JBool b) = b"
| "truthy (JNum n) = (n \<noteq> 0)"
| "truthy (JStr s) = (s \<noteq> [])"
| "truthy (JArr xs) = True"
| "truthy (JObj kvs) = True"
| "truthy JValuesFn = True"
| "truthy (JWhere props built) = True"

fun isArray :: "jsval \<Rightarrow> bool" where
  "isArray (JArr xs) = True"
| "isArray v = False"

text \<open>\<open>xs.join(sep)\<close> on an array of strings.\<close>

fun join :: "string \<Rightarrow> string list \<Rightarrow> string" where
  "join sep [] = []"
| "join sep [x] = x"
| "join sep (x # y # ys) = x @ sep @ join sep (y # ys)"

text \<open>Decimal rendering of a number, as in template literals and array index keys.\<close>

definition digit_char :: "nat \<Rightarrow> char" where
  "digit_char d = ''0123456789'' ! (d mod 10)"

fun show_nat :: "nat \<Rightarrow> string" where
  "show_nat n = (if n < 10 then [digit_char n] else show_nat (n div 10) @ [digit_char (n mod 10)])"

declare show_nat.simps [simp del]

definition show_int :: "int \<Rightarrow> string" where
  "show_int i = (if i < 0 then CHR ''-'' # show_nat (nat (- i)) else show_nat (nat i))"

text \<open>
  \<open>ToString\<close>, applied by template literals \<open>`${v}`\<close>. An array joins its elements by a
  comma, with \<open>null\<close> and \<open>undefined\<close> elements rendered empty.
\<close>

fun js_toString :: "jsval \<Rightarrow> string" where
  "js_toString JNull = ''null''"
| "js_toString JUndefined = ''undefined''"
| "js_toString (JBool b) = (if b then ''true'' else ''false'')"
| "js_toString (JNum n) = show_int n"
| "js_toString (JStr s) = s"
| "js_toString (JArr xs) =
     join '','' (map (\<lambda>x. if x = JNull \<or> x = JUndefined then [] else js_toString x) xs)"
| "js_toString (JObj kvs) = ''[object Object]''"
| "js_toString JValuesFn = ''function values() { [native code] }''"
| "js_toString (JWhere props built) = ''[object Object]''"

text \<open>
  The property read \<open>v.k\<close> for the names \<open>path\<close>, \<open>value\<close> and \<open>values\<close>: it throws
  on \<open>null\<close> and \<open>undefined\<close>, finds an own property of an object, and finds
  \<open>Array.prototype.values\<close> on an array.
\<close>

fun js_member :: "jsval \<Rightarrow> string \<Rightarrow> error + jsval" where
  "js_member JNull k = Inl TypeError"
| "js_member JUndefined k = Inl TypeError"
| "js_member (JObj kvs) k = Inr (case map_of kvs k of Some v \<Rightarrow> v | None \<Rightarrow> JUndefined)"
| "js_member (JWhere props built) k =
     Inr (case map_of props k of Some v \<Rightarrow> v | None \<Rightarrow> JUndefined)"
| "js_member (JArr xs) k = Inr (if k = ''values'' then JValuesFn else JUndefined)"
| "js_member v k = Inr JUndefined"

text \<open>
  \<open>Object.entries(v)\<close>: the own enumerable properties; an array or a string lists its
  indices. The source throws on \<open>null\<close> and \<open>undefined\<close>; every caller tests for them
  first.
\<close>

fun index_entries :: "nat \<Rightarrow> jsval list \<Rightarrow> (string \<times> jsval) list" where
  "index_entries i [] = []"
| "index_entries i (x # xs) = (show_nat i, x) # index_entries (Suc i) xs"

fun entries :: "jsval \<Rightarrow> (string \<times> jsval) list" where
  "entries (JObj kvs) = kvs"
| "entries (JWhere props built) = props"
| "entries (JArr xs) = index_entries 0 xs"
| "entries (JStr s) = index_entries 0 (map (\<lambda>c. JStr [c]) s)"
| "entries v = []"

text \<open>\<open>s.replace(pat, rep)\<close> with a string pattern: the first occurrence only.\<close>

fun replace_first :: "string \<Rightarrow> string \<Rightarrow> string \<Rightarrow> string" where
  "replace_first pat rep [] = (if pat = [] then rep else [])"
| "replace_first pat rep (c # cs) =
     (if prefix pat (c # cs) then rep @ drop (length pat) (c # cs)
      else c # replace_first pat rep cs)"

section \<open>\<open>JSON.stringify\<close>\<close>

definition hex_char :: "nat \<Rightarrow> char" where
  "hex_char d = ''0123456789abcdef'' ! (d mod 16)"

definition json_quote_char :: "char \<Rightarrow> string" where
  "json_quote_char c =
     (if c = dquote then [backslash, dquote]
      else if c = backslash then [backslash, backslash]
      else if c = CHR 0x08 then [backslash, CHR ''b'']
      else if c = CHR 0x09 then [backslash, CHR ''t'']
      else if c = CHR 0x0A then [backslash, CHR ''n'']
      else if c = CHR 0x0C then [backslash, CHR ''f'']
      else if c = CHR 0x0D then [backslash, CHR ''r'']
      else if (of_char c :: nat) < 32
        then [backslash, CHR ''u'', CHR ''0'', CHR ''0'',
              hex_char (of_char c div 16), hex_char (of_char c mod 16)]
      else [c])"

definition json_quote :: "string \<Rightarrow> string" where
  "json_quote s = dquote # concat (map json_quote_char s) @ [dquote]"

text \<open>
  \<open>json_text v\<close> is the JSON text of \<open>v\<close>, or \<open>None\<close> where \<open>JSON.stringify\<close> gives
  \<open>undefined\<close> (for \<open>undefined\<close> and functions). Such an element of an array is
  written \<open>null\<close>, such a property of an object is left out.
\<close>

fun json_text :: "jsval \<Rightarrow> string option"
  and json_elems :: "jsval list \<Rightarrow> string list"
  and json_props :: "(string \<times> jsval) list \<Rightarrow> string list" where
  "json_text JNull = Some ''null''"
| "json_text JUndefined = None"
| "json_text (JBool b) = Some (if b then ''true'' else ''false'')"
| "json_text (JNum n) = Some (show_int n)"
| "json_text (JStr s) = Some (json_quote s)"
| "json_text (JArr xs) = Some (''['' @ join '','' (json_elems xs) @ '']'')"
| "json_text (JObj kvs) = Some (''{'' @ join '','' (json_props kvs) @ ''}'')"
| "json_text JValuesFn = None"
| "json_text (JWhere props built) = Some (''{'' @ join '','' (json_props props) @ ''}'')"
| "json_elems [] = []"
| "json_elems (x # xs) =
     (case json_text x of None \<Rightarrow> ''null'' | Some t \<Rightarrow> t) # json_elems xs"
| "json_props [] = []"
| "json_props (kv # kvs) =
     (case json_text (snd kv) of
        None \<Rightarrow> json_props kvs
      | Some t \<Rightarrow> (json_quote (fst kv) @ '':'' @ t) # json_props kvs)"

definition JSON_stringify :: "jsval \<Rightarrow> jsval" where
  "JSON_stringify v = (case json_text v of None \<Rightarrow> JUndefined | Some t \<Rightarrow> JStr t)"

section \<open>The where parser (sql.where.parser.ts)\<close>

text \<open>
  Private methods whose name starts with an underscore are written with a trailing prime:
  \<open>_parseCondition\<close> is \<open>parseCondition'\<close>. The parameter array that the source
  passes around and pushes to is passed in and returned. The field mappings that the
  parser stores are never read by the translation and are left out.
\<close>

datatype DatabaseType = mysql | postgresql | sqlite

record SqlWhereParser =
  databaseType :: DatabaseType
  tableAlias :: "string option"

record ParsedWhereClause =
  sql :: string
  params :: "jsval list"
  hasConditions :: bool

definition no_conditions :: ParsedWhereClause where
  "no_conditions = \<lparr>sql = [], params = [], hasConditions = False\<rparr>"

text \<open>\<open>identifier.replace(/[`'"]/g, '\\$&')\<close> between backticks.\<close>

definition escape_char' :: "char \<Rightarrow> string" where
  "escape_char' c = (if c = backtick \<or> c = squote \<or> c = dquote then [backslash, c] else [c])"

definition escapeIdentifier' :: "string \<Rightarrow> string" where
  "escapeIdentifier' identifier = backtick # concat (map escape_char' identifier) @ [backtick]"

definition getFieldReference' :: "SqlWhereParser \<Rightarrow> string \<Rightarrow> string" where
  "getFieldReference' p field =
     (case tableAlias p of
        None \<Rightarrow> escapeIdentifier' field
      | Some a \<Rightarrow> if a \<noteq> [] then a @ ''.'' @ escapeIdentifier' field
                  else escapeIdentifier' field)"

definition placeholders :: "jsval list \<Rightarrow> string" where
  "placeholders vs = join '', '' (map (\<lambda>v. [qmark]) vs)"

subsection \<open>The Condition-model front end\<close>

definition createCondition ::
    "SqlWhereParser \<Rightarrow> string \<Rightarrow> string \<Rightarrow> jsval \<Rightarrow> jsval list \<Rightarrow> string \<times> jsval list" where
  "createCondition p field operator v ps =
     (let fieldRef = getFieldReference' p field in
      if operator = ''eq'' then
        (if v = JNull \<or> v = JUndefined then (fieldRef @ '' IS NULL'', ps)
         else (fieldRef @ '' = ?'', ps @ [v]))
      else if operator = ''ne'' then
        (if v = JNull \<or> v = JUndefined then (fieldRef @ '' IS NOT NULL'', ps)
         else (fieldRef @ '' != ?'', ps @ [v]))
      else if operator = ''gt'' then (fieldRef @ '' > ?'', ps @ [v])
      else if operator = ''gte'' then (fieldRef @ '' >= ?'', ps @ [v])
      else if operator = ''lt'' then (fieldRef @ '' < ?'', ps @ [v])
      else if operator = ''lte'' then (fieldRef @ '' <= ?'', ps @ [v])
      else if operator = ''in'' then
        (case v of
           JArr vs \<Rightarrow>
             if vs = [] then (''1=0'', ps)
             else (fieldRef @ '' IN ('' @ placeholders vs @ '')'', ps @ vs)
         | _ \<Rightarrow> (''1=0'', ps))
      else if operator = ''nin'' then
        (case v of
           JArr vs \<Rightarrow>
             if vs = [] then (''1=1'', ps)
             else (fieldRef @ '' NOT IN ('' @ placeholders vs @ '')'', ps @ vs)
         | _ \<Rightarrow> (''1=1'', ps))
      else if operator = ''like'' then (fieldRef @ '' LIKE ?'', ps @ [v])
      else (fieldRef @ '' = ?'', ps @ [v]))"

text \<open>\<open>left.map(key => this.createCondition(key, operator, right, params))\<close>\<close>

fun createConditions ::
    "SqlWhereParser \<Rightarrow> string list \<Rightarrow> string \<Rightarrow> jsval \<Rightarrow> jsval list \<Rightarrow> string list \<times> jsval list" where
  "createConditions p [] operator v ps = ([], ps)"
| "createConditions p (key # keys) operator v ps =
     (case createCondition p key operator v ps of
        (c, ps1) \<Rightarrow>
          (case createConditions p keys operator v ps1 of
             (cs, ps2) \<Rightarrow> (c # cs, ps2)))"

definition where_result :: "string \<Rightarrow> jsval list \<Rightarrow> ParsedWhereClause" where
  "where_result s ps =
     \<lparr>sql = (if s \<noteq> [] then ''WHERE '' @ s else []), params = ps, hasConditions = (s \<noteq> [])\<rparr>"

text \<open>
  The type guards test the fields for truthiness: a condition whose \<open>operator\<close> is the empty
  string, or a \<open>Condition\<close> whose \<open>left\<close> is the empty string, passes none of them and
  leaves \<open>sql\<close> empty.
\<close>

fun parseCondition :: "SqlWhereParser \<Rightarrow> cond \<Rightarrow> ParsedWhereClause" where
  "parseCondition p (VariedCondition conditions operator) =
     (if operator \<noteq> [] then
        (let parsedConditions = filter hasConditions (map (parseCondition p) conditions) in
         if parsedConditions = [] then no_conditions
         else where_result
                (join ('' '' @ (if operator = ''and'' then ''AND'' else ''OR'') @ '' '')
                   (map (\<lambda>r. ''('' @ replace_first ''WHERE '' [] (sql r) @ '')'') parsedConditions))
                (concat (map params parsedConditions)))
      else where_result [] [])"
| "parseCondition p (NestedCondition result) = parseCondition p result"
| "parseCondition p (ConditionWithManyKeys left operator right) =
     (if operator \<noteq> [] then
        (case createConditions p left operator right [] of
           (conditions, ps) \<Rightarrow> where_result (join '' OR '' conditions) ps)
      else where_result [] [])"
| "parseCondition p (Condition left operator right) =
     (if left \<noteq> [] \<and> operator \<noteq> [] then
        (case createCondition p left operator right [] of (s, ps) \<Rightarrow> where_result s ps)
      else where_result [] [])"

subsection \<open>The plain-criteria front end: operators\<close>

definition buildComparison' :: "string \<Rightarrow> string \<Rightarrow> jsval \<Rightarrow> jsval list \<Rightarrow> string \<times> jsval list" where
  "buildComparison' field operator v ps = (field @ '' '' @ operator @ '' ?'', ps @ [v])"

definition buildInCondition' :: "string \<Rightarrow> jsval \<Rightarrow> jsval list \<Rightarrow> bool \<Rightarrow> string \<times> jsval list" where
  "buildInCondition' field vals ps negate =
     (case vals of
        JArr vs \<Rightarrow>
          if vs = [] then (if negate then ''1=1'' else ''1=0'', ps)
          else (field @ '' '' @ (if negate then ''NOT IN'' else ''IN'') @ '' ('' @ placeholders vs @ '')'',
                ps @ vs)
      | _ \<Rightarrow> (if negate then ''1=1'' else ''1=0'', ps))"

definition buildLikeCondition' :: "string \<Rightarrow> jsval \<Rightarrow> jsval list \<Rightarrow> bool \<Rightarrow> string \<times> jsval list" where
  "buildLikeCondition' field pattern ps negate =
     (field @ '' '' @ (if negate then ''NOT LIKE'' else ''LIKE'') @ '' ?'', ps @ [pattern])"

text \<open>
  A regular expression \<open>/\[.*?\]/g\<close> in \<open>replace\<close>: scanning from the left, a match starts
  at an opening character and ends at the first closing character after it, provided no
  line terminator lies between (the dot does not match one); the search goes on after the
  match. \<open>lazy_match cls cs\<close> is the text after the match when \<open>cs\<close> follows the opening
  character.
\<close>

definition is_line_terminator :: "char \<Rightarrow> bool" where
  "is_line_terminator c = (c = CHR 0x0A \<or> c = CHR 0x0D)"

fun lazy_match :: "char \<Rightarrow> string \<Rightarrow> string option" where
  "lazy_match cls [] = None"
| "lazy_match cls (c # cs) =
     (if c = cls then Some cs
      else if is_line_terminator c then None
      else lazy_match cls cs)"

lemma lazy_match_length: "lazy_match cls cs = Some rest \<Longrightarrow> length rest < length cs"
  by (induction cs) (auto split: if_splits)

function replace_groups :: "char \<Rightarrow> char \<Rightarrow> string \<Rightarrow> string" where
  "replace_groups opn cls [] = []"
| "replace_groups opn cls (c # cs) =
     (if c = opn then
        (case lazy_match cls cs of
           Some rest \<Rightarrow> CHR ''_'' # replace_groups opn cls rest
         | None \<Rightarrow> c # replace_groups opn cls cs)
      else c # replace_groups opn cls cs)"
  by pat_completeness auto
termination
  by (relation "measure (\<lambda>(opn, cls, s). length s)") (auto dest: lazy_match_length)

definition replace_char :: "char \<Rightarrow> char \<Rightarrow> string \<Rightarrow> string" where
  "replace_char a b s = map (\<lambda>c. if c = a then b else c) s"

definition regexToLike' :: "string \<Rightarrow> string" where
  "regexToLike' regex =
     CHR ''%'' #
       replace_groups CHR ''('' CHR '')''
         (replace_groups CHR ''['' CHR '']''
            (replace_char qmark CHR ''_''
               (replace_char CHR ''*'' CHR ''%''
                  (replace_char CHR ''.'' CHR ''_'' regex))))
     @ [CHR ''%'']"

text \<open>
  \<open>regex.replace\<close> exists on a string only: with any other pattern the chain of
  \<open>replace\<close> calls throws.
\<close>

definition buildRegexCondition' ::
    "string \<Rightarrow> jsval \<Rightarrow> jsval list \<Rightarrow> bool \<Rightarrow> error + string \<times> jsval list" where
  "buildRegexCondition' field pattern ps negate =
     (case pattern of
        JStr s \<Rightarrow> Inr (buildLikeCondition' field (JStr (regexToLike' s)) ps negate)
      | _ \<Rightarrow> Inl TypeError)"

definition buildExistsCondition' :: "string \<Rightarrow> jsval \<Rightarrow> jsval list \<Rightarrow> bool \<Rightarrow> string \<times> jsval list" where
  "buildExistsCondition' field v ps negate =
     (if truthy v then (if negate then field @ '' IS NULL'' else field @ '' IS NOT NULL'', ps)
      else (if negate then field @ '' IS NOT NULL'' else field @ '' IS NULL'', ps))"

definition buildBetweenCondition' :: "string \<Rightarrow> jsval \<Rightarrow> jsval list \<Rightarrow> bool \<Rightarrow> string \<times> jsval list" where
  "buildBetweenCondition' field vals ps negate =
     (case vals of
        JArr [a, b] \<Rightarrow>
          (field @ '' '' @ (if negate then ''NOT BETWEEN'' else ''BETWEEN'') @ '' ? AND ?'', ps @ [a, b])
      | _ \<Rightarrow> (if negate then ''1=1'' else ''1=0'', ps))"

definition createJsonExtractCondition' ::
    "SqlWhereParser \<Rightarrow> string \<Rightarrow> jsval \<Rightarrow> jsval \<Rightarrow> jsval list \<Rightarrow> string \<times> jsval list" where
  "createJsonExtractCondition' p field path v ps =
     (let fieldRef = getFieldReference' p field in
      case databaseType p of
        postgresql \<Rightarrow> (fieldRef @ ''->>'' @ [squote] @ js_toString path @ [squote] @ '' = ?'', ps @ [v])
      | mysql \<Rightarrow>
          (''JSON_EXTRACT('' @ fieldRef @ '', '' @ [squote] @ js_toString path @ [squote] @ '') = ?'',
           ps @ [v])
      | sqlite \<Rightarrow>
          (''json_extract('' @ fieldRef @ '', '' @ [squote] @ js_toString path @ [squote] @ '') = ?'',
           ps @ [v]))"

definition createJsonPathCondition' ::
    "SqlWhereParser \<Rightarrow> string \<Rightarrow> jsval \<Rightarrow> jsval list \<Rightarrow> string \<times> jsval list" where
  "createJsonPathCondition' p field path ps =
     (if databaseType p = postgresql then (getFieldReference' p field @ '' @> ?'', ps)
      else createJsonExtractCondition' p field path JNull ps)"

definition createFullTextSearchCondition' ::
    "SqlWhereParser \<Rightarrow> string \<Rightarrow> jsval \<Rightarrow> jsval list \<Rightarrow> string \<times> jsval list" where
  "createFullTextSearchCondition' p field searchTerm ps =
     (let fieldRef = getFieldReference' p field in
      case databaseType p of
        postgresql \<Rightarrow>
          (''to_tsvector('' @ [squote] @ ''english'' @ [squote] @ '', '' @ fieldRef
             @ '') @@ plainto_tsquery('' @ [squote] @ ''english'' @ [squote] @ '', ?)'',
           ps @ [searchTerm])
      | mysql \<Rightarrow> (''MATCH('' @ fieldRef @ '') AGAINST(? IN BOOLEAN MODE)'', ps @ [searchTerm])
      | sqlite \<Rightarrow> (fieldRef @ '' MATCH ?'', ps @ [searchTerm]))"

definition createArrayContainsCondition' ::
    "SqlWhereParser \<Rightarrow> string \<Rightarrow> jsval \<Rightarrow> jsval list \<Rightarrow> string \<times> jsval list" where
  "createArrayContainsCondition' p field vals ps =
     (let fieldRef = getFieldReference' p field in
      case databaseType p of
        postgresql \<Rightarrow> (fieldRef @ '' @> ?'', ps @ [vals])
      | mysql \<Rightarrow> (''JSON_CONTAINS('' @ fieldRef @ '', ?)'', ps @ [JSON_stringify vals])
      | sqlite \<Rightarrow>
          (''json_extract('' @ fieldRef @ '', '' @ [squote] @ ''$'' @ [squote] @ '') = ?'',
           ps @ [JSON_stringify vals]))"

definition createTextSearchCondition' ::
    "SqlWhereParser \<Rightarrow> string \<Rightarrow> jsval \<Rightarrow> jsval list \<Rightarrow> string \<times> jsval list" where
  "createTextSearchCondition' p field searchTerm ps =
     (getFieldReference' p field @ '' LIKE ?'',
      ps @ [JStr (CHR ''%'' # js_toString searchTerm @ [CHR ''%''])])"

text \<open>The result \<open>null\<close> of \<open>_parseFieldOperator\<close> is \<open>None\<close>.\<close>

definition found :: "string \<times> jsval list \<Rightarrow> error + string option \<times> jsval list" where
  "found r = Inr (Some (fst r), snd r)"


definition parseFieldOperator' ::
    "SqlWhereParser \<Rightarrow> string \<Rightarrow> string \<Rightarrow> jsval \<Rightarrow> jsval list \<Rightarrow> error + string option \<times> jsval list" where
  "parseFieldOperator' p field operator v ps =
     (let fieldRef = getFieldReference' p field in
      if operator = ''eq'' then found (buildComparison' fieldRef ''='' v ps)
      else if operator = ''ne'' then found (buildComparison' fieldRef ''!='' v ps)
      else if operator = ''gt'' then found (buildComparison' fieldRef ''>'' v ps)
      else if operator = ''gte'' then found (buildComparison' fieldRef ''>='' v ps)
      else if operator = ''lt'' then found (buildComparison' fieldRef ''<'' v ps)
      else if operator = ''lte'' then found (buildComparison' fieldRef ''<='' v ps)
      else if operator = ''in'' then found (buildInCondition' fieldRef v ps False)
      else if operator = ''nin'' then found (buildInCondition' fieldRef v ps True)
      else if operator = ''like'' then found (buildLikeCondition' fieldRef v ps False)
      else if operator = ''nlike'' then found (buildLikeCondition' fieldRef v ps True)
      else if operator = ''regex'' then
        (case buildRegexCondition' fieldRef v ps False of Inl e \<Rightarrow> Inl e | Inr r \<Rightarrow> found r)
      else if operator = ''nregex'' then
        (case buildRegexCondition' fieldRef v ps True of Inl e \<Rightarrow> Inl e | Inr r \<Rightarrow> found r)
      else if operator = ''exists'' then found (buildExistsCondition' fieldRef v ps False)
      else if operator = ''nexists'' then found (buildExistsCondition' fieldRef v ps True)
      else if operator = ''between'' then found (buildBetweenCondition' fieldRef v ps False)
      else if operator = ''nbetween'' then found (buildBetweenCondition' fieldRef v ps True)
      else if operator = ''json_extract'' then
        (case js_member v ''path'' of
           Inl e \<Rightarrow> Inl e
         | Inr path \<Rightarrow>
             (case js_member v ''value'' of
                Inl e \<Rightarrow> Inl e
              | Inr x \<Rightarrow> found (createJsonExtractCondition' p field path x ps)))
      else if operator = ''json_path'' then found (createJsonPathCondition' p field v ps)
      else if operator = ''full_text_search'' then
        (case js_member v ''value'' of
           Inl e \<Rightarrow> Inl e
         | Inr x \<Rightarrow> found (createFullTextSearchCondition' p field x ps))
      else if operator = ''array_contains'' then
        (case js_member v ''values'' of
           Inl e \<Rightarrow> Inl e
         | Inr x \<Rightarrow> found (createArrayContainsCondition' p field x ps))
      else if operator = ''text_search'' then
        (case js_member v ''value'' of
           Inl e \<Rightarrow> Inl e
         | Inr x \<Rightarrow> found (createTextSearchCondition' p field x ps))
      else Inr (None, ps))"

text \<open>\<open>if (condition) conditions.push(condition)\<close>: \<open>null\<close> and the empty string are not pushed.\<close>

definition push_condition :: "string list \<Rightarrow> string option \<Rightarrow> string list" where
  "push_condition conditions c =
     (case c of None \<Rightarrow> conditions | Some s \<Rightarrow> if s \<noteq> [] then conditions @ [s] else conditions)"

fun parseFieldOperators_loop ::
    "SqlWhereParser \<Rightarrow> string \<Rightarrow> (string \<times> jsval) list \<Rightarrow> string list \<Rightarrow> jsval list
       \<Rightarrow> error + string list \<times> jsval list" where
  "parseFieldOperators_loop p field [] conditions ps = Inr (conditions, ps)"
| "parseFieldOperators_loop p field (kv # rest) conditions ps =
     (case parseFieldOperator' p field (fst kv) (snd kv) ps of
        Inl e \<Rightarrow> Inl e
      | Inr (c, ps1) \<Rightarrow> parseFieldOperators_loop p field rest (push_condition conditions c) ps1)"

definition parseFieldOperators' ::
    "SqlWhereParser \<Rightarrow> string \<Rightarrow> jsval \<Rightarrow> jsval list \<Rightarrow> error + string option \<times> jsval list" where
  "parseFieldOperators' p field operators ps =
     (case parseFieldOperators_loop p field (entries operators) [] ps of
        Inl e \<Rightarrow> Inl e
      | Inr (conditions, ps1) \<Rightarrow>
          Inr (if conditions \<noteq> [] then Some (join '' AND '' conditions) else None, ps1))"

definition parseSimpleCondition' ::
    "SqlWhereParser \<Rightarrow> string \<Rightarrow> jsval \<Rightarrow> jsval list \<Rightarrow> string \<times> jsval list" where
  "parseSimpleCondition' p field v ps =
     (let fieldRef = getFieldReference' p field in
      if v = JNull then (fieldRef @ '' IS NULL'', ps)
      else if v = JUndefined then (fieldRef @ '' IS NULL'', ps)
      else buildComparison' fieldRef ''='' v ps)"

subsection \<open>The plain-criteria front end: the recursion\<close>

text \<open>
  \<open>where.build\<close> is truthy on an instance of \<open>Where\<close> and on an object with a truthy
  property of that name.
\<close>

fun has_build :: "jsval \<Rightarrow> bool" where
  "has_build (JWhere props built) = True"
| "has_build (JObj kvs) = (case map_of kvs ''build'' of Some v \<Rightarrow> truthy v | None \<Rightarrow> False)"
| "has_build v = False"

text \<open>
  \<open>parse\<close> on an instance of \<open>Where\<close> calls \<open>build()\<close> and hands the result to
  \<open>parseCondition\<close>. On an object with a truthy property \<open>build\<close> it returns the empty
  clause: a property that is no function is not called, and the call of
  \<open>Array.prototype.values\<close> returns an array iterator, which passes none of the type
  guards of \<open>parseCondition\<close>.

  \<open>parse\<close> on another value calls \<open>parseCriteria\<close>, whose loop over the entries calls
  \<open>_parseCondition\<close>; the combinators \<open>$and\<close>, \<open>$or\<close>, \<open>$nor\<close> and \<open>$not\<close> call
  \<open>parse\<close> again on each sub-criteria. \<open>parseCriteria_loop\<close> is the \<open>for\<close> loop of
  \<open>parseCriteria\<close> and \<open>parse_each\<close> is \<open>conditions.map(condition => this.parse(condition))\<close>.
  The recursion ends because every call goes to a part of the value; \<open>jsize\<close> measures it.
\<close>

fun jsize :: "jsval \<Rightarrow> nat" where
  "jsize (JArr xs) = Suc (sum_list (map jsize xs))"
| "jsize (JObj kvs) = Suc (sum_list (map (\<lambda>kv. jsize (snd kv)) kvs))"
| "jsize (JWhere props built) = Suc (sum_list (map (\<lambda>kv. jsize (snd kv)) props))"
| "jsize v = 1"

definition props_size :: "(string \<times> jsval) list \<Rightarrow> nat" where
  "props_size kvs = sum_list (map (\<lambda>kv. jsize (snd kv)) kvs)"

lemma props_size_index_entries: "props_size (index_entries i xs) = sum_list (map jsize xs)"
  by (induction xs arbitrary: i) (auto simp: props_size_def)

lemma props_size_entries: "typeof c = TObject \<Longrightarrow> props_size (entries c) < jsize c"
  by (cases c) (auto simp: props_size_index_entries, auto simp: props_size_def)

lemma jsize_pos: "0 < jsize v"
  by (cases v) auto

lemma props_size_Cons: "props_size (kv # kvs) = jsize (snd kv) + props_size kvs"
  by (simp add: props_size_def)

lemma props_size_entries':
  "typeof c = TObject \<Longrightarrow> 10 * props_size (entries c) + 14 < 10 * jsize c + 5"
  using props_size_entries [of c] by arith

function parse :: "SqlWhereParser \<Rightarrow> jsval \<Rightarrow> error + ParsedWhereClause"
  and parseCriteria :: "SqlWhereParser \<Rightarrow> jsval \<Rightarrow> error + ParsedWhereClause"
  and parseCriteria_loop ::
    "SqlWhereParser \<Rightarrow> (string \<times> jsval) list \<Rightarrow> string list \<Rightarrow> jsval list
       \<Rightarrow> error + string list \<times> jsval list"
  and parseCondition' ::
    "SqlWhereParser \<Rightarrow> string \<Rightarrow> jsval \<Rightarrow> jsval list \<Rightarrow> error + string option \<times> jsval list"
  and parseOperatorCondition' ::
    "SqlWhereParser \<Rightarrow> string \<Rightarrow> jsval \<Rightarrow> jsval list \<Rightarrow> error + string option \<times> jsval list"
  and parseLogicalOperator' ::
    "SqlWhereParser \<Rightarrow> string \<Rightarrow> jsval \<Rightarrow> jsval list \<Rightarrow> error + string \<times> jsval list"
  and parse_each :: "SqlWhereParser \<Rightarrow> jsval list \<Rightarrow> error + ParsedWhereClause list"
  and parseNotCondition' ::
    "SqlWhereParser \<Rightarrow> jsval \<Rightarrow> jsval list \<Rightarrow> error + string \<times> jsval list" where
  "parse p w =
     (if \<not> truthy w then Inr no_conditions
      else if typeof w = TObject \<and> \<not> has_build w then parseCriteria p w
      else case w of
        JWhere props built \<Rightarrow>
          (case built of
             None \<Rightarrow> Inr no_conditions
           | Some condition \<Rightarrow> Inr (parseCondition p condition))
      | _ \<Rightarrow> Inr no_conditions)"
| "parseCriteria p criteria =
     (if \<not> truthy criteria \<or> typeof criteria \<noteq> TObject then Inr no_conditions
      else case parseCriteria_loop p (entries criteria) [] [] of
        Inl e \<Rightarrow> Inl e
      | Inr (conditions, ps) \<Rightarrow>
          Inr \<lparr>sql = (if conditions \<noteq> [] then ''WHERE '' @ join '' AND '' conditions else []),
               params = ps,
               hasConditions = (conditions \<noteq> [])\<rparr>)"
| "parseCriteria_loop p [] conditions ps = Inr (conditions, ps)"
| "parseCriteria_loop p (kv # rest) conditions ps =
     (case parseCondition' p (fst kv) (snd kv) ps of
        Inl e \<Rightarrow> Inl e
      | Inr (c, ps1) \<Rightarrow> parseCriteria_loop p rest (push_condition conditions c) ps1)"
| "parseCondition' p key v ps =
     (if prefix ''$'' key then parseOperatorCondition' p key v ps
      else if typeof v = TObject \<and> v \<noteq> JNull \<and> \<not> isArray v then parseFieldOperators' p key v ps
      else found (parseSimpleCondition' p key v ps))"
| "parseOperatorCondition' p operator v ps =
     (if operator = ''$and'' then
        (case parseLogicalOperator' p ''AND'' v ps of Inl e \<Rightarrow> Inl e | Inr r \<Rightarrow> found r)
      else if operator = ''$or'' then
        (case parseLogicalOperator' p ''OR'' v ps of Inl e \<Rightarrow> Inl e | Inr r \<Rightarrow> found r)
      else if operator = ''$not'' then
        (case parseNotCondition' p v ps of Inl e \<Rightarrow> Inl e | Inr r \<Rightarrow> found r)
      else if operator = ''$nor'' then
        (case parseLogicalOperator' p ''AND NOT'' v ps of Inl e \<Rightarrow> Inl e | Inr r \<Rightarrow> found r)
      else Inr (None, ps))"
| "parseLogicalOperator' p logicalOp conditions ps =
     (case conditions of
        JArr xs \<Rightarrow>
          (case parse_each p xs of
             Inl e \<Rightarrow> Inl e
           | Inr results \<Rightarrow>
               (let parsedConditions = filter hasConditions results in
                if length parsedConditions = 0 then Inr ([], ps)
                else if length parsedConditions = 1 then
                  Inr (replace_first ''WHERE '' [] (sql (hd parsedConditions)), ps)
                else
                  Inr (join ('' '' @ logicalOp @ '' '')
                         (map (\<lambda>r. ''('' @ replace_first ''WHERE '' [] (sql r) @ '')'')
                            parsedConditions),
                       ps @ concat (map params parsedConditions))))
      | _ \<Rightarrow> Inl TypeError)"
| "parse_each p [] = Inr []"
| "parse_each p (x # xs) =
     (case parse p x of
        Inl e \<Rightarrow> Inl e
      | Inr r \<Rightarrow> (case parse_each p xs of Inl e \<Rightarrow> Inl e | Inr rs \<Rightarrow> Inr (r # rs)))"
| "parseNotCondition' p condition ps =
     (case parse p condition of
        Inl e \<Rightarrow> Inl e
      | Inr parsed \<Rightarrow>
          if \<not> hasConditions parsed then Inr ([], ps)
          else Inr (''NOT ('' @ replace_first ''WHERE '' [] (sql parsed) @ '')'', ps @ params parsed))"
  by pat_completeness auto
termination
  by (relation "measure
        (case_sum
          (case_sum
            (case_sum (\<lambda>(p, w). 10 * jsize w + 6) (\<lambda>(p, c). 10 * jsize c + 5))
            (case_sum (\<lambda>(p, kvs, cs, ps). 10 * props_size kvs + 14)
                      (\<lambda>(p, k, v, ps). 10 * jsize v + 9)))
          (case_sum
            (case_sum (\<lambda>(p, k, v, ps). 10 * jsize v + 8) (\<lambda>(p, l, v, ps). 10 * jsize v + 7))
            (case_sum (\<lambda>(p, xs). 10 * sum_list (map jsize xs) + 7)
                      (\<lambda>(p, v, ps). 10 * jsize v + 7))))")
     (auto simp: props_size_Cons jsize_pos props_size_entries')


text \<open>
  \<open>parse\<close> on an instance of \<open>Where\<close> that is given by what its \<open>build()\<close> returns:
  \<open>WhereInstance built\<close> is the argument \<open>JWhere props built\<close> of \<open>parse\<close>, whatever
  its properties.
\<close>

definition parse_Where :: "SqlWhereParser \<Rightarrow> cond option \<Rightarrow> ParsedWhereClause" where
  "parse_Where p built =
     (case built of None \<Rightarrow> no_conditions | Some condition \<Rightarrow> parseCondition p condition)"

datatype where_arg = Plain jsval | WhereInstance "cond option"

fun parse_arg :: "SqlWhereParser \<Rightarrow> where_arg \<Rightarrow> error + ParsedWhereClause" where
  "parse_arg p (Plain w) = parse p w"
| "parse_arg p (WhereInstance built) = Inr (parse_Where p built)"

text \<open>The static methods \<open>SqlWhereParser.buildWhereClause\<close> and \<open>SqlWhereParser.parse\<close>.\<close>

definition SqlWhereParser_buildWhereClause ::
    "where_arg \<Rightarrow> string option \<Rightarrow> error + ParsedWhereClause" where
  "SqlWhereParser_buildWhereClause criteria alias =
     parse_arg \<lparr>databaseType = mysql, tableAlias = alias\<rparr> criteria"

definition SqlWhereParser_parse :: "where_arg \<Rightarrow> error + ParsedWhereClause" where
  "SqlWhereParser_parse w = parse_arg \<lparr>databaseType = mysql, tableAlias = None\<rparr> w"

section \<open>SqlUtils (sql.utils.ts)\<close>

definition double_char :: "char \<Rightarrow> char \<Rightarrow> string" where
  "double_char q c = (if c = q then [q, q] else [c])"

definition quote_with :: "char \<Rightarrow> string \<Rightarrow> string" where
  "quote_with q identifier = q # concat (map (double_char q) identifier) @ [q]"

text \<open>The database type is optional: \<open>buildOrderByClause\<close> passes none.\<close>

definition SqlUtils_escapeIdentifier :: "string \<Rightarrow> DatabaseType option \<Rightarrow> string" where
  "SqlUtils_escapeIdentifier identifier dbt =
     (if identifier = [] then []
      else if dbt = Some mysql then quote_with backtick identifier
      else if dbt = Some postgresql then quote_with dquote identifier
      else if dbt = Some sqlite then quote_with dquote identifier
      else quote_with dquote identifier)"

definition SqlUtils_toSqlValue :: "jsval \<Rightarrow> DatabaseType \<Rightarrow> jsval" where
  "SqlUtils_toSqlValue v dbt =
     (case v of
        JNull \<Rightarrow> JNull
      | JUndefined \<Rightarrow> JNull
      | JBool b \<Rightarrow>
          if dbt = mysql then JNum (if b then 1 else 0)
          else if dbt = sqlite then JNum (if b then 1 else 0)
          else v
      | JObj kvs \<Rightarrow> JSON_stringify v
      | JWhere props built \<Rightarrow> JSON_stringify v
      | _ \<Rightarrow> v)"

text \<open>
  \<open>SqlUtils.buildWhereClause\<close>: \<open>where_operators\<close> is the inner loop over the operators
  of one object value, \<open>where_clauses\<close> the outer loop over the conditions. Both carry the
  arrays \<open>clauses\<close> and \<open>params\<close>.
\<close>

fun where_operators ::
    "DatabaseType \<Rightarrow> string \<Rightarrow> jsval \<Rightarrow> (string \<times> jsval) list \<Rightarrow> string list \<times> jsval list
       \<Rightarrow> string list \<times> jsval list" where
  "where_operators dbt key v [] acc = acc"
| "where_operators dbt key v (kv # rest) acc =
     (let col = SqlUtils_escapeIdentifier key (Some dbt);
          operator = fst kv;
          operatorValue = snd kv;
          clauses = fst acc;
          ps = snd acc
      in where_operators dbt key v rest
          (if operator = ''$gte'' then
             (clauses @ [col @ '' >= ?''], ps @ [SqlUtils_toSqlValue operatorValue dbt])
           else if operator = ''$lte'' then
             (clauses @ [col @ '' <= ?''], ps @ [SqlUtils_toSqlValue operatorValue dbt])
           else if operator = ''$gt'' then
             (clauses @ [col @ '' > ?''], ps @ [SqlUtils_toSqlValue operatorValue dbt])
           else if operator = ''$lt'' then
             (clauses @ [col @ '' < ?''], ps @ [SqlUtils_toSqlValue operatorValue dbt])
           else if operator = ''$ne'' then
             (clauses @ [col @ '' != ?''], ps @ [SqlUtils_toSqlValue operatorValue dbt])
           else if operator = ''$in'' then
             (case operatorValue of
                JArr vs \<Rightarrow>
                  (clauses @ [col @ '' IN ('' @ placeholders vs @ '')''],
                   ps @ map (\<lambda>x. SqlUtils_toSqlValue x dbt) vs)
              | _ \<Rightarrow> acc)
           else if operator = ''$nin'' then
             (case operatorValue of
                JArr vs \<Rightarrow>
                  (clauses @ [col @ '' NOT IN ('' @ placeholders vs @ '')''],
                   ps @ map (\<lambda>x. SqlUtils_toSqlValue x dbt) vs)
              | _ \<Rightarrow> acc)
           else if operator = ''$like'' then
             (clauses @ [col @ '' LIKE ?''], ps @ [SqlUtils_toSqlValue operatorValue dbt])
           else (clauses @ [col @ '' = ?''], ps @ [SqlUtils_toSqlValue v dbt])))"

fun where_clauses ::
    "DatabaseType \<Rightarrow> (string \<times> jsval) list \<Rightarrow> string list \<times> jsval list
       \<Rightarrow> string list \<times> jsval list" where
  "where_clauses dbt [] acc = acc"
| "where_clauses dbt (kv # rest) acc =
     (let key = fst kv;
          v = snd kv;
          col = SqlUtils_escapeIdentifier key (Some dbt);
          clauses = fst acc;
          ps = snd acc
      in where_clauses dbt rest
          (if v = JNull \<or> v = JUndefined then (clauses @ [col @ '' IS NULL''], ps)
           else case v of
             JArr vs \<Rightarrow>
               if vs = [] then (clauses @ [''1 = 0''], ps)
               else (clauses @ [col @ '' IN ('' @ placeholders vs @ '')''], ps @ vs)
           | JObj ops \<Rightarrow> where_operators dbt key v ops acc
           | JWhere props built \<Rightarrow> where_operators dbt key v props acc
           | _ \<Rightarrow> (clauses @ [col @ '' = ?''], ps @ [SqlUtils_toSqlValue v dbt])))"

definition SqlUtils_buildWhereClause :: "jsval \<Rightarrow> DatabaseType \<Rightarrow> string \<times> jsval list" where
  "SqlUtils_buildWhereClause conditions dbt =
     (case where_clauses dbt (entries conditions) ([], []) of
        (clauses, ps) \<Rightarrow> (if clauses \<noteq> [] then join '' AND '' clauses else ''1 = 1'', ps))"

datatype order_by = OrderRecord "(string \<times> string) list" | OrderArray "string list"

fun SqlUtils_buildOrderByClause :: "order_by \<Rightarrow> string" where
  "SqlUtils_buildOrderByClause (OrderArray fs) =
     join '', '' (map (\<lambda>field. SqlUtils_escapeIdentifier field None) fs)"
| "SqlUtils_buildOrderByClause (OrderRecord ds) =
     join '', '' (map (\<lambda>(field, direction). SqlUtils_escapeIdentifier field None @ '' '' @ direction) ds)"

text \<open>\<open>limit\<close> and \<open>offset\<close> are numbers or \<open>undefined\<close>.\<close>

definition SqlUtils_buildLimitClause :: "jsval \<Rightarrow> jsval \<Rightarrow> string" where
  "SqlUtils_buildLimitClause lim off =
     (if lim = JUndefined \<and> off = JUndefined then []
      else if off \<noteq> JUndefined \<and> lim \<noteq> JUndefined then
        ''LIMIT '' @ js_toString off @ '', '' @ js_toString lim
      else if lim \<noteq> JUndefined then ''LIMIT '' @ js_toString lim
      else [])"

section \<open>SqlQueryFactory\<close>

record QueryOptions =
  opt_table :: string
  opt_fields :: "string list option"
  opt_where :: jsval
  opt_orderBy :: "order_by option"
  opt_limit :: jsval
  opt_offset :: jsval
  opt_groupBy :: "string list option"
  opt_having :: jsval

definition nonempty_list :: "'a list option \<Rightarrow> bool" where
  "nonempty_list xs = (case xs of None \<Rightarrow> False | Some l \<Rightarrow> l \<noteq> [])"

text \<open>\<open>c && Object.keys(c).length > 0\<close>\<close>

definition has_keys :: "jsval \<Rightarrow> bool" where
  "has_keys c = (truthy c \<and> entries c \<noteq> [])"

definition buildSelectQuery :: "DatabaseType \<Rightarrow> QueryOptions \<Rightarrow> string \<times> jsval list" where
  "buildSelectQuery dbt options =
     (let s0 = ''SELECT '' @
            (if nonempty_list (opt_fields options) then
               join '', '' (map (\<lambda>field. SqlUtils_escapeIdentifier field (Some dbt))
                              (the (opt_fields options)))
             else ''*'');
          s1 = s0 @ '' FROM '' @ SqlUtils_escapeIdentifier (opt_table options) (Some dbt);
          w = (if has_keys (opt_where options)
               then Some (SqlUtils_buildWhereClause (opt_where options) dbt) else None);
          s2 = (case w of None \<Rightarrow> s1 | Some whereClause \<Rightarrow> s1 @ '' WHERE '' @ fst whereClause);
          ps2 = (case w of None \<Rightarrow> [] | Some whereClause \<Rightarrow> snd whereClause);
          s3 = (if nonempty_list (opt_groupBy options) then
                  s2 @ '' GROUP BY '' @
                    join '', '' (map (\<lambda>field. SqlUtils_escapeIdentifier field (Some dbt))
                                   (the (opt_groupBy options)))
                else s2);
          h = (if has_keys (opt_having options)
               then Some (SqlUtils_buildWhereClause (opt_having options) dbt) else None);
          s4 = (case h of None \<Rightarrow> s3 | Some havingClause \<Rightarrow> s3 @ '' HAVING '' @ fst havingClause);
          ps4 = (case h of None \<Rightarrow> ps2 | Some havingClause \<Rightarrow> ps2 @ snd havingClause);
          s5 = (case opt_orderBy options of
                  None \<Rightarrow> s4
                | Some ob \<Rightarrow>
                    if SqlUtils_buildOrderByClause ob \<noteq> []
                    then s4 @ '' ORDER BY '' @ SqlUtils_buildOrderByClause ob else s4);
          limitClause = SqlUtils_buildLimitClause (opt_limit options) (opt_offset options);
          s6 = (if limitClause \<noteq> [] then s5 @ '' '' @ limitClause else s5)
      in (s6, ps4))"

text \<open>
  \<open>obj[key] = v\<close>: an existing key keeps its place. A new key goes to the end, unless it is
  an array index (a decimal numeral below \<open>2^32 - 1\<close> without a leading zero): the own
  properties of an object list the array indices first, in ascending order.
\<close>

definition digit_value :: "char \<Rightarrow> nat option" where
  "digit_value c = map_of (zip ''0123456789'' [0, 1, 2, 3, 4, 5, 6, 7, 8, 9]) c"

fun digits_value :: "string \<Rightarrow> nat \<Rightarrow> nat option" where
  "digits_value [] acc = Some acc"
| "digits_value (c # cs) acc =
     (case digit_value c of None \<Rightarrow> None | Some d \<Rightarrow> digits_value cs (10 * acc + d))"

definition array_index :: "string \<Rightarrow> nat option" where
  "array_index k =
     (if k = [] \<or> (hd k = CHR ''0'' \<and> length k > 1) then None
      else case digits_value k 0 of
        None \<Rightarrow> None
      | Some n \<Rightarrow> if n < 4294967295 then Some n else None)"

fun insert_index :: "nat \<Rightarrow> string \<Rightarrow> 'a \<Rightarrow> (string \<times> 'a) list \<Rightarrow> (string \<times> 'a) list" where
  "insert_index n k v [] = [(k, v)]"
| "insert_index n k v (kv # kvs) =
     (case array_index (fst kv) of
        None \<Rightarrow> (k, v) # kv # kvs
      | Some m \<Rightarrow> if m < n then kv # insert_index n k v kvs else (k, v) # kv # kvs)"

definition assign :: "string \<Rightarrow> 'a \<Rightarrow> (string \<times> 'a) list \<Rightarrow> (string \<times> 'a) list" where
  "assign k v kvs =
     (if k \<in> set (map fst kvs) then map (\<lambda>kv. if fst kv = k then (k, v) else kv) kvs
      else case array_index k of
        None \<Rightarrow> kvs @ [(k, v)]
      | Some n \<Rightarrow> insert_index n k v kvs)"

text \<open>
  \<open>toUpperCase\<close> on the letters a to z. The result is only compared with \<open>ASC\<close> and
  \<open>DESC\<close>, which no other 8-bit character maps into.
\<close>

definition upper_char :: "char \<Rightarrow> char" where
  "upper_char c =
     (case map_of (zip ''abcdefghijklmnopqrstuvwxyz'' ''ABCDEFGHIJKLMNOPQRSTUVWXYZ'') c of
        None \<Rightarrow> c | Some u \<Rightarrow> u)"

definition toUpperCase :: "string \<Rightarrow> string" where
  "toUpperCase s = map upper_char s"

fun convertSort_loop :: "(string \<times> jsval) list \<Rightarrow> (string \<times> string) list \<Rightarrow> (string \<times> string) list" where
  "convertSort_loop [] orderBy = orderBy"
| "convertSort_loop (kv # rest) orderBy =
     convertSort_loop rest
       (case snd kv of
          JNum direction \<Rightarrow>
            if direction = 1 then assign (fst kv) ''ASC'' orderBy
            else if direction = - 1 then assign (fst kv) ''DESC'' orderBy
            else orderBy
        | JStr direction \<Rightarrow>
            if toUpperCase direction = ''ASC'' \<or> toUpperCase direction = ''DESC''
            then assign (fst kv) (toUpperCase direction) orderBy
            else orderBy
        | _ \<Rightarrow> orderBy)"

definition convertSortToOrderBy :: "jsval \<Rightarrow> (string \<times> string) list" where
  "convertSortToOrderBy srt =
     (if \<not> truthy srt \<or> typeof srt \<noteq> TObject then []
      else convertSort_loop (entries srt) [])"

record FindParams =
  fp_limit :: jsval
  fp_offset :: jsval
  fp_sort :: jsval
  fp_where :: "where_arg option"
  fp_projection :: jsval

record DbQuery =
  dq_sql :: string
  dq_params :: "jsval list"
  dq_filter :: jsval
  dq_options :: jsval

text \<open>
  The parsed clause as the object it is: \<open>buildSelectQuery\<close> receives it as \<open>where\<close> and
  reads it through \<open>Object.keys\<close> and \<open>Object.entries\<close>.
\<close>

definition clause_object :: "ParsedWhereClause \<Rightarrow> jsval" where
  "clause_object r =
     JObj [(''sql'', JStr (sql r)), (''params'', JArr (params r)),
           (''hasConditions'', JBool (hasConditions r))]"

fun where_truthy :: "where_arg option \<Rightarrow> bool" where
  "where_truthy None = False"
| "where_truthy (Some (Plain w)) = truthy w"
| "where_truthy (Some (WhereInstance built)) = True"

text \<open>
  \<open>createFindQuery(params, ...args)\<close>: \<open>tableArg\<close> is \<open>args[0]\<close>, \<open>None\<close> when no argument
  is passed. The factory's parser has the factory's database type and no table alias.
\<close>

definition createFindQuery :: "DatabaseType \<Rightarrow> FindParams \<Rightarrow> string option \<Rightarrow> error + DbQuery" where
  "createFindQuery dbt fp tableArg =
     (let tableName = (case tableArg of None \<Rightarrow> ''default_table''
                       | Some t \<Rightarrow> if t \<noteq> [] then t else ''default_table'');
          orderBy = (if truthy (fp_sort fp)
                     then Some (OrderRecord (convertSortToOrderBy (fp_sort fp))) else None)
      in case (if where_truthy (fp_where fp)
               then map_sum id Some
                      (parse_arg \<lparr>databaseType = dbt, tableAlias = None\<rparr> (the (fp_where fp)))
               else Inr None) of
           Inl e \<Rightarrow> Inl e
         | Inr whereClause \<Rightarrow>
             (let queryOptions =
                   \<lparr>opt_table = tableName,
                    opt_fields = (if truthy (fp_projection fp)
                                  then Some (map fst (entries (fp_projection fp))) else None),
                    opt_where = (case whereClause of None \<Rightarrow> JUndefined
                                 | Some r \<Rightarrow> clause_object r),
                    opt_orderBy = orderBy,
                    opt_limit = fp_limit fp,
                    opt_offset = fp_offset fp,
                    opt_groupBy = None,
                    opt_having = JUndefined\<rparr>;
                  result = buildSelectQuery dbt queryOptions
              in Inr \<lparr>dq_sql = fst result,
                      dq_params = snd result,
                      dq_filter = (case whereClause of None \<Rightarrow> JObj []
                                   | Some r \<Rightarrow> clause_object r),
                      dq_options = JObj [(''limit'', fp_limit fp), (''offset'', fp_offset fp),
                                         (''sort'', fp_sort fp),
                                         (''projection'', fp_projection fp)]\<rparr>))"

section \<open>SqlFieldResolver (sql.field-resolver.ts)\<close>

text \<open>
  \<open>PropertyInfo\<close> comes from @soapjs/soap; the resolver reads \<open>name\<close>, \<open>type\<close>,
  \<open>transformer.to\<close>, \<open>transformer.from\<close> and \<open>nullable\<close>. A mapping table is the list of
  its entries. A model class is given by the table that \<open>resolveDecoratorMappings\<close> reads
  from the metadata of its decorators.
\<close>

record PropertyInfo =
  pi_name :: string
  pi_type :: string
  pi_to :: "(jsval \<Rightarrow> jsval) option"
  pi_from :: "(jsval \<Rightarrow> jsval) option"
  pi_nullable :: "bool option"

record SqlFieldResolver =
  modelClass :: "(string \<times> PropertyInfo) list option"
  modelFieldMappings :: "(string \<times> PropertyInfo) list option"
  resolverDatabaseType :: DatabaseType

definition getFieldMappings :: "SqlFieldResolver \<Rightarrow> (string \<times> PropertyInfo) list" where
  "getFieldMappings r =
     (case modelClass r of
        Some decorated \<Rightarrow> decorated
      | None \<Rightarrow> (case modelFieldMappings r of Some m \<Rightarrow> m | None \<Rightarrow> []))"

text \<open>\<open>mappings[domainField]\<close>, for a name that \<open>Object.prototype\<close> does not define.\<close>

definition getFieldMapping :: "SqlFieldResolver \<Rightarrow> string \<Rightarrow> PropertyInfo option" where
  "getFieldMapping r domainField = map_of (getFieldMappings r) domainField"

definition SqlTransformers_toSql :: "jsval \<Rightarrow> DatabaseType \<Rightarrow> jsval" where
  "SqlTransformers_toSql v dbt =
     (case v of
        JNull \<Rightarrow> JNull
      | JUndefined \<Rightarrow> JNull
      | JBool b \<Rightarrow>
          if dbt = mysql then JNum (if b then 1 else 0)
          else if dbt = sqlite then JNum (if b then 1 else 0)
          else v
      | JObj kvs \<Rightarrow> JSON_stringify v
      | JWhere props built \<Rightarrow> JSON_stringify v
      | _ \<Rightarrow> v)"

definition transformToDatabase :: "SqlFieldResolver \<Rightarrow> string \<Rightarrow> jsval \<Rightarrow> jsval" where
  "transformToDatabase r domainField v =
     (case getFieldMapping r domainField of
        None \<Rightarrow> SqlTransformers_toSql v (resolverDatabaseType r)
      | Some mapping \<Rightarrow>
          (case pi_to mapping of
             Some to \<Rightarrow> SqlTransformers_toSql (to v) (resolverDatabaseType r)
           | None \<Rightarrow> SqlTransformers_toSql v (resolverDatabaseType r)))"

text \<open>
  \<open>SqlTransformers.fromSql\<close> rests on \<open>JSON.parse\<close> and on the parsing of dates by the
  runtime; it is the parameter \<open>fromSql\<close>.
\<close>

definition transformFromDatabase ::
    "(jsval \<Rightarrow> DatabaseType \<Rightarrow> jsval) \<Rightarrow> SqlFieldResolver \<Rightarrow> string \<Rightarrow> jsval \<Rightarrow> jsval" where
  "transformFromDatabase fromSql r domainField v =
     (case getFieldMapping r domainField of
        None \<Rightarrow> fromSql v (resolverDatabaseType r)
      | Some mapping \<Rightarrow>
          (case pi_from mapping of
             Some from \<Rightarrow> from (fromSql v (resolverDatabaseType r))
           | None \<Rightarrow> fromSql v (resolverDatabaseType r)))"

text \<open>
  \<open>obj.hasOwnProperty(k)\<close> throws on \<open>null\<close> and \<open>undefined\<close>. Arrays and strings own their
  indices and \<open>length\<close>, the native function owns \<open>length\<close> and \<open>name\<close>. An object with
  a property \<open>hasOwnProperty\<close> of its own has that one called: the call throws when it is
  no function, and \<open>Array.prototype.values\<close> returns an iterator, which is truthy.
\<close>

fun hasOwnProperty :: "jsval \<Rightarrow> string \<Rightarrow> error + bool" where
  "hasOwnProperty JNull k = Inl TypeError"
| "hasOwnProperty JUndefined k = Inl TypeError"
| "hasOwnProperty (JObj kvs) k =
     (case map_of kvs ''hasOwnProperty'' of
        None \<Rightarrow> Inr (k \<in> set (map fst kvs))
      | Some JValuesFn \<Rightarrow> Inr True
      | Some v \<Rightarrow> Inl TypeError)"
| "hasOwnProperty (JArr xs) k = Inr (k \<in> set (map fst (entries (JArr xs))) \<or> k = ''length'')"
| "hasOwnProperty (JStr s) k = Inr (k \<in> set (map fst (entries (JStr s))) \<or> k = ''length'')"
| "hasOwnProperty (JWhere props built) k = Inr (k \<in> set (map fst props))"
| "hasOwnProperty JValuesFn k = Inr (k = ''length'' \<or> k = ''name'')"
| "hasOwnProperty v k = Inr False"

definition own_property :: "jsval \<Rightarrow> string \<Rightarrow> jsval" where
  "own_property obj k =
     (case map_of (entries obj) k of
        Some v \<Rightarrow> v
      | None \<Rightarrow>
          (case obj of
             JArr xs \<Rightarrow> if k = ''length'' then JNum (int (length xs)) else JUndefined
           | JStr s \<Rightarrow> if k = ''length'' then JNum (int (length s)) else JUndefined
           | _ \<Rightarrow> JUndefined))"

fun toDatabase_loop ::
    "SqlFieldResolver \<Rightarrow> jsval \<Rightarrow> (string \<times> PropertyInfo) list \<Rightarrow> (string \<times> jsval) list
       \<Rightarrow> error + (string \<times> jsval) list" where
  "toDatabase_loop r domainObject [] databaseObject = Inr databaseObject"
| "toDatabase_loop r domainObject (m # rest) databaseObject =
     (case hasOwnProperty domainObject (fst m) of
        Inl e \<Rightarrow> Inl e
      | Inr has \<Rightarrow>
          if has then
            (let transformedValue =
                   transformToDatabase r (fst m) (own_property domainObject (fst m))
             in toDatabase_loop r domainObject rest
                  (if transformedValue \<noteq> JUndefined
                   then assign (pi_name (snd m)) transformedValue databaseObject
                   else databaseObject))
          else toDatabase_loop r domainObject rest databaseObject)"

definition transformObjectToDatabase :: "SqlFieldResolver \<Rightarrow> jsval \<Rightarrow> error + jsval" where
  "transformObjectToDatabase r domainObject =
     map_sum id JObj (toDatabase_loop r domainObject (getFieldMappings r) [])"

fun fromDatabase_loop ::
    "(jsval \<Rightarrow> DatabaseType \<Rightarrow> jsval) \<Rightarrow> SqlFieldResolver \<Rightarrow> jsval \<Rightarrow> (string \<times> PropertyInfo) list
       \<Rightarrow> (string \<times> jsval) list \<Rightarrow> error + (string \<times> jsval) list" where
  "fromDatabase_loop fromSql r databaseObject [] domainObject = Inr domainObject"
| "fromDatabase_loop fromSql r databaseObject (m # rest) domainObject =
     (case hasOwnProperty databaseObject (pi_name (snd m)) of
        Inl e \<Rightarrow> Inl e
      | Inr has \<Rightarrow>
          if has then
            (let transformedValue =
                   transformFromDatabase fromSql r (fst m)
                     (own_property databaseObject (pi_name (snd m)))
             in fromDatabase_loop fromSql r databaseObject rest
                  (if transformedValue \<noteq> JUndefined
                   then assign (fst m) transformedValue domainObject
                   else domainObject))
          else fromDatabase_loop fromSql r databaseObject rest domainObject)"

definition transformObjectFromDatabase ::
    "(jsval \<Rightarrow> DatabaseType \<Rightarrow> jsval) \<Rightarrow> SqlFieldResolver \<Rightarrow> jsval \<Rightarrow> error + jsval" where
  "transformObjectFromDatabase fromSql r databaseObject =
     map_sum id JObj (fromDatabase_loop fromSql r databaseObject (getFieldMappings r) [])"

text \<open>The aliases \<open>transformToDocument\<close> and \<open>transformToEntity\<close>.\<close>

definition transformToDocument :: "SqlFieldResolver \<Rightarrow> jsval \<Rightarrow> error + jsval" where
  "transformToDocument r entity = transformObjectToDatabase r entity"

definition transformToEntity ::
    "(jsval \<Rightarrow> DatabaseType \<Rightarrow> jsval) \<Rightarrow> SqlFieldResolver \<Rightarrow> jsval \<Rightarrow> error + jsval" where
  "transformToEntity fromSql r document = transformObjectFromDatabase fromSql r document"

section \<open>Notions used in the properties\<close>

text \<open>The number of positional placeholders in a piece of SQL.\<close>

definition count_placeholders :: "string \<Rightarrow> nat" where
  "count_placeholders s = length (filter (\<lambda>c. c = qmark) s)"


text \<open>The operators that \<open>createCondition\<close> tells apart.\<close>

definition condition_operators :: "string list" where
  "condition_operators = [''eq'', ''ne'', ''gt'', ''gte'', ''lt'', ''lte'', ''in'', ''nin'', ''like'']"

text \<open>A field name that the plain-criteria front end takes for a column.\<close>

definition plain_field :: "string \<Rightarrow> bool" where
  "plain_field field = (field \<noteq> [] \<and> \<not> prefix ''$'' field \<and> field \<noteq> ''build'')"

definition operator_criteria :: "string \<Rightarrow> string \<Rightarrow> jsval \<Rightarrow> jsval" where
  "operator_criteria field operator v = JObj [(field, JObj [(operator, v)])]"

definition nonempty_array :: "jsval \<Rightarrow> bool" where
  "nonempty_array v = (case v of JArr (x # xs) \<Rightarrow> True | _ \<Rightarrow> False)"

definition pair_array :: "jsval \<Rightarrow> bool" where
  "pair_array v = (case v of JArr [a, b] \<Rightarrow> True | _ \<Rightarrow> False)"

definition well_formed_clause :: "ParsedWhereClause \<Rightarrow> bool" where
  "well_formed_clause r =
     ((hasConditions r = (sql r \<noteq> [])) \<and> (sql r \<noteq> [] \<longrightarrow> prefix ''WHERE '' (sql r)))"



section \<open>Properties\<close>

lemmas parser_defs =
  no_conditions_def found_def where_result_def push_condition_def placeholders_def
  getFieldReference'_def escapeIdentifier'_def escape_char'_def
  parseSimpleCondition'_def parseFieldOperators'_def parseFieldOperator'_def
  buildComparison'_def buildInCondition'_def buildLikeCondition'_def buildRegexCondition'_def
  buildExistsCondition'_def buildBetweenCondition'_def createCondition_def parse_Where_def

lemmas factory_defs =
  createFindQuery_def buildSelectQuery_def SqlUtils_buildWhereClause_def
  SqlUtils_escapeIdentifier_def quote_with_def double_char_def SqlUtils_toSqlValue_def
  SqlUtils_buildLimitClause_def clause_object_def has_keys_def nonempty_list_def
  convertSortToOrderBy_def

subsection \<open>Placeholders and parameters of a combinator\<close>

text \<open>
  With two sub-conditions, \<open>$and\<close> hands the parameters of both to the clause, and so does
  \<open>$not\<close> with its one.
\<close>

lemma combinator_of_two_keeps_params:
  "parse \<lparr>databaseType = mysql, tableAlias = None\<rparr>
     (JObj [(''$and'', JArr [JObj [(''status'', JStr ''active'')], JObj [(''age'', JNum 25)]])])
   = Inr \<lparr>sql = ''WHERE (`status` = ?) AND (`age` = ?)'',
          params = [JStr ''active'', JNum 25], hasConditions = True\<rparr>"
  by (simp add: parser_defs)

lemma not_keeps_params:
  "parse \<lparr>databaseType = mysql, tableAlias = None\<rparr>
     (JObj [(''$not'', JObj [(''status'', JStr ''inactive'')])])
   = Inr \<lparr>sql = ''WHERE NOT (`status` = ?)'', params = [JStr ''inactive''], hasConditions = True\<rparr>"
  by (simp add: parser_defs)

text \<open>The operator \<open>json_path\<close> of the PostgreSQL dialect writes a placeholder and binds nothing.\<close>

lemma json_path_binds_nothing:
  "parse \<lparr>databaseType = postgresql, tableAlias = None\<rparr>
     (JObj [(''profile'', JObj [(''json_path'', JStr ''$.theme'')])])
   = Inr \<lparr>sql = ''WHERE `profile` @> ?'', params = [], hasConditions = True\<rparr>"
  by (simp add: parser_defs createJsonPathCondition'_def)

text \<open>
  Claim C1: in every translated where clause the number of \<open>?\<close> placeholders in \<open>sql\<close> is
  the length of \<open>params\<close>, also for a combinator with exactly one effective sub-condition.
  The code does not keep this: \<open>_parseLogicalOperator\<close> returns the single sub-clause
  before it reaches the statement that pushes the parameters. For
  \<open>{$and: [{status: 'active'}]}\<close> the clause has one placeholder and no parameter.
\<close>

theorem single_condition_combinator_drops_params:
  "parse \<lparr>databaseType = mysql, tableAlias = None\<rparr>
     (JObj [(''$and'', JArr [JObj [(''status'', JStr ''active'')]])])
   = Inr \<lparr>sql = ''WHERE `status` = ?'', params = [], hasConditions = True\<rparr>
   \<and> count_placeholders ''WHERE `status` = ?'' = 1"
  by (simp add: parser_defs count_placeholders_def)

subsection \<open>The where clause of a find query\<close>

text \<open>
  Claim C3: the statement of \<open>createFindQuery\<close> has the translator's predicate as its
  WHERE fragment and the translator's parameters as its parameters. The code does not do
  this: it hands the parsed clause, an object with the keys \<open>sql\<close>, \<open>params\<close> and
  \<open>hasConditions\<close>, to \<open>buildSelectQuery\<close>, which reads it as a criteria object and
  takes the three keys for column names. For \<open>{name: 'John'}\<close> the translator gives
  \<open>WHERE `name` = ?\<close> with the parameter \<open>John\<close>; the statement holds neither.
\<close>

theorem find_query_where_fragment:
  "createFindQuery mysql
     \<lparr>fp_limit = JUndefined, fp_offset = JUndefined, fp_sort = JUndefined,
      fp_where = Some (Plain (JObj [(''name'', JStr ''John'')])), fp_projection = JUndefined\<rparr>
     None
   = Inr \<lparr>dq_sql = ''SELECT * FROM `default_table` WHERE `sql` = ? AND `params` IN (?) AND `hasConditions` = ?'',
          dq_params = [JStr ''WHERE `name` = ?'', JStr ''John'', JNum 1],
          dq_filter = JObj [(''sql'', JStr ''WHERE `name` = ?''), (''params'', JArr [JStr ''John'']),
                            (''hasConditions'', JBool True)],
          dq_options = JObj [(''limit'', JUndefined), (''offset'', JUndefined),
                             (''sort'', JUndefined), (''projection'', JUndefined)]\<rparr>
   \<and> parse_arg \<lparr>databaseType = mysql, tableAlias = None\<rparr> (Plain (JObj [(''name'', JStr ''John'')]))
   = Inr \<lparr>sql = ''WHERE `name` = ?'', params = [JStr ''John''], hasConditions = True\<rparr>"
  by (simp add: parser_defs factory_defs Let_def)

subsection \<open>The two front ends\<close>

text \<open>
  A criteria \<open>{field: {operator: v}}\<close> is translated by \<open>_parseFieldOperator\<close> alone.
\<close>

lemma parse_operator_criteria:
  assumes "plain_field field"
  shows "parse p (operator_criteria field operator v) =
     (case parseFieldOperator' p field operator v [] of
        Inl e \<Rightarrow> Inl e
      | Inr (c, ps) \<Rightarrow>
          Inr (where_result (case c of None \<Rightarrow> [] | Some s \<Rightarrow> s) ps))"
  using assms
  by (auto simp: plain_field_def operator_criteria_def parseFieldOperators'_def push_condition_def
        no_conditions_def where_result_def split: sum.splits option.splits)





subsection \<open>Unknown operators\<close>




subsection \<open>Identifiers\<close>

text \<open>
  Claim C5: a field reference in a where clause is escaped by dialect, with doubled
  backticks between backticks for MySQL and doubled double quotes between double quotes for
  PostgreSQL and SQLite, and carries the table alias as a prefix. The escaping part fails:
  the where parser writes backticks for every dialect and puts a backslash before a quote
  character; only \<open>SqlUtils.escapeIdentifier\<close> escapes by dialect.
\<close>

theorem where_identifier_counterexample:
  "getFieldReference' \<lparr>databaseType = postgresql, tableAlias = None\<rparr> ''name'' = ''`name`''
   \<and> SqlUtils_escapeIdentifier ''name'' (Some postgresql) = [dquote] @ ''name'' @ [dquote]
   \<and> getFieldReference' \<lparr>databaseType = mysql, tableAlias = None\<rparr> ''user`name''
       = ''`user'' @ [backslash] @ ''`name`''
   \<and> SqlUtils_escapeIdentifier ''user`name'' (Some mysql) = ''`user``name`''"
  by (simp add: parser_defs factory_defs)

text \<open>
  Claim C5, amended: a field reference in a where clause is the same for every dialect: the
  name between backticks, with a backslash before each backtick, single quote and double
  quote, after the prefix \<open>alias.\<close> when a non-empty table alias is set. Every operator of
  both front ends, and the literal equality, writes the field as this reference, in the
  SQL that the theorem lists operator by operator. The escaping by dialect (doubled
  backticks for MySQL, doubled double quotes for PostgreSQL and SQLite) is that of
  \<open>SqlUtils.escapeIdentifier\<close>, which the statement factory uses for tables and columns.
\<close>

theorem where_identifier_escaping:
  "(getFieldReference' (p\<lparr>databaseType := d\<rparr>) field = getFieldReference' p field
    \<and> (tableAlias p = Some a \<and> a \<noteq> [] \<longrightarrow>
         getFieldReference' p field = a @ ''.'' @ escapeIdentifier' field)
    \<and> (tableAlias p = None \<or> tableAlias p = Some [] \<longrightarrow>
         getFieldReference' p field = escapeIdentifier' field)
    \<and> escapeIdentifier' field =
         [backtick] @ concat (map (\<lambda>c. if c \<in> {backtick, squote, dquote} then [backslash, c] else [c]) field)
           @ [backtick]
    \<and> (ident \<noteq> [] \<longrightarrow>
         SqlUtils_escapeIdentifier ident (Some mysql)
           = [backtick] @ concat (map (\<lambda>c. if c = backtick then [backtick, backtick] else [c]) ident)
               @ [backtick]
         \<and> SqlUtils_escapeIdentifier ident (Some postgresql)
           = [dquote] @ concat (map (\<lambda>c. if c = dquote then [dquote, dquote] else [c]) ident)
               @ [dquote]
         \<and> SqlUtils_escapeIdentifier ident (Some sqlite)
           = SqlUtils_escapeIdentifier ident (Some postgresql)))
   \<and> (parseSimpleCondition' p field v ps
         = (if v = JNull \<or> v = JUndefined then (getFieldReference' p field @ '' IS NULL'', ps)
            else (getFieldReference' p field @ '' = ?'', ps @ [v]))
       \<and> parseFieldOperator' p field ''eq'' v ps
         = Inr (Some (getFieldReference' p field @ '' = ?''), ps @ [v])
       \<and> parseFieldOperator' p field ''ne'' v ps
         = Inr (Some (getFieldReference' p field @ '' != ?''), ps @ [v])
       \<and> parseFieldOperator' p field ''gt'' v ps
         = Inr (Some (getFieldReference' p field @ '' > ?''), ps @ [v])
       \<and> parseFieldOperator' p field ''gte'' v ps
         = Inr (Some (getFieldReference' p field @ '' >= ?''), ps @ [v])
       \<and> parseFieldOperator' p field ''lt'' v ps
         = Inr (Some (getFieldReference' p field @ '' < ?''), ps @ [v])
       \<and> parseFieldOperator' p field ''lte'' v ps
         = Inr (Some (getFieldReference' p field @ '' <= ?''), ps @ [v])
       \<and> parseFieldOperator' p field ''in'' (JArr (x # xs)) ps
         = Inr (Some (getFieldReference' p field @ '' IN ('' @ placeholders (x # xs) @ '')''),
                ps @ x # xs)
       \<and> parseFieldOperator' p field ''nin'' (JArr (x # xs)) ps
         = Inr (Some (getFieldReference' p field @ '' NOT IN ('' @ placeholders (x # xs) @ '')''),
                ps @ x # xs)
       \<and> parseFieldOperator' p field ''like'' v ps
         = Inr (Some (getFieldReference' p field @ '' LIKE ?''), ps @ [v])
       \<and> parseFieldOperator' p field ''nlike'' v ps
         = Inr (Some (getFieldReference' p field @ '' NOT LIKE ?''), ps @ [v])
       \<and> parseFieldOperator' p field ''regex'' (JStr pat) ps
         = Inr (Some (getFieldReference' p field @ '' LIKE ?''), ps @ [JStr (regexToLike' pat)])
       \<and> parseFieldOperator' p field ''nregex'' (JStr pat) ps
         = Inr (Some (getFieldReference' p field @ '' NOT LIKE ?''), ps @ [JStr (regexToLike' pat)])
       \<and> parseFieldOperator' p field ''exists'' v ps
         = Inr (Some (getFieldReference' p field
                        @ (if truthy v then '' IS NOT NULL'' else '' IS NULL'')), ps)
       \<and> parseFieldOperator' p field ''nexists'' v ps
         = Inr (Some (getFieldReference' p field
                        @ (if truthy v then '' IS NULL'' else '' IS NOT NULL'')), ps)
       \<and> parseFieldOperator' p field ''between'' (JArr [lo, hi]) ps
         = Inr (Some (getFieldReference' p field @ '' BETWEEN ? AND ?''), ps @ [lo, hi])
       \<and> parseFieldOperator' p field ''nbetween'' (JArr [lo, hi]) ps
         = Inr (Some (getFieldReference' p field @ '' NOT BETWEEN ? AND ?''), ps @ [lo, hi]))
   \<and> (createJsonExtractCondition' p field path v ps
         = ((case databaseType p of
               postgresql \<Rightarrow>
                 getFieldReference' p field @ ''->>'' @ [squote] @ js_toString path @ [squote] @ '' = ?''
             | mysql \<Rightarrow>
                 ''JSON_EXTRACT('' @ getFieldReference' p field @ '', '' @ [squote]
                   @ js_toString path @ [squote] @ '') = ?''
             | sqlite \<Rightarrow>
                 ''json_extract('' @ getFieldReference' p field @ '', '' @ [squote]
                   @ js_toString path @ [squote] @ '') = ?''),
            ps @ [v])
       \<and> createJsonPathCondition' p field path ps
         = (if databaseType p = postgresql then (getFieldReference' p field @ '' @> ?'', ps)
            else createJsonExtractCondition' p field path JNull ps)
       \<and> createFullTextSearchCondition' p field term ps
         = ((case databaseType p of
               postgresql \<Rightarrow>
                 ''to_tsvector('' @ [squote] @ ''english'' @ [squote] @ '', ''
                   @ getFieldReference' p field
                   @ '') @@ plainto_tsquery('' @ [squote] @ ''english'' @ [squote] @ '', ?)''
             | mysql \<Rightarrow> ''MATCH('' @ getFieldReference' p field @ '') AGAINST(? IN BOOLEAN MODE)''
             | sqlite \<Rightarrow> getFieldReference' p field @ '' MATCH ?''),
            ps @ [term])
       \<and> createArrayContainsCondition' p field vals ps
         = ((case databaseType p of
               postgresql \<Rightarrow> getFieldReference' p field @ '' @> ?''
             | mysql \<Rightarrow> ''JSON_CONTAINS('' @ getFieldReference' p field @ '', ?)''
             | sqlite \<Rightarrow>
                 ''json_extract('' @ getFieldReference' p field @ '', '' @ [squote] @ ''$''
                   @ [squote] @ '') = ?''),
            ps @ [if databaseType p = postgresql then vals else JSON_stringify vals])
       \<and> createTextSearchCondition' p field term ps
         = (getFieldReference' p field @ '' LIKE ?'', ps @ [JStr (''%'' @ js_toString term @ ''%'')])
       \<and> parseFieldOperator' p field ''json_path'' v ps
         = Inr (Some (fst (createJsonPathCondition' p field v ps)),
                snd (createJsonPathCondition' p field v ps))
       \<and> (js_member v ''path'' = Inr path \<and> js_member v ''value'' = Inr x \<longrightarrow>
            parseFieldOperator' p field ''json_extract'' v ps
              = Inr (Some (fst (createJsonExtractCondition' p field path x ps)),
                     snd (createJsonExtractCondition' p field path x ps)))
       \<and> (js_member v ''value'' = Inr x \<longrightarrow>
            parseFieldOperator' p field ''full_text_search'' v ps
              = Inr (Some (fst (createFullTextSearchCondition' p field x ps)),
                     snd (createFullTextSearchCondition' p field x ps))
            \<and> parseFieldOperator' p field ''text_search'' v ps
              = Inr (Some (fst (createTextSearchCondition' p field x ps)),
                     snd (createTextSearchCondition' p field x ps)))
       \<and> (js_member v ''values'' = Inr x \<longrightarrow>
            parseFieldOperator' p field ''array_contains'' v ps
              = Inr (Some (fst (createArrayContainsCondition' p field x ps)),
                     snd (createArrayContainsCondition' p field x ps))))
   \<and> (createCondition p field ''eq'' v ps
         = (if v = JNull \<or> v = JUndefined then (getFieldReference' p field @ '' IS NULL'', ps)
            else (getFieldReference' p field @ '' = ?'', ps @ [v]))
       \<and> createCondition p field ''ne'' v ps
         = (if v = JNull \<or> v = JUndefined then (getFieldReference' p field @ '' IS NOT NULL'', ps)
            else (getFieldReference' p field @ '' != ?'', ps @ [v]))
       \<and> createCondition p field ''gt'' v ps = (getFieldReference' p field @ '' > ?'', ps @ [v])
       \<and> createCondition p field ''gte'' v ps = (getFieldReference' p field @ '' >= ?'', ps @ [v])
       \<and> createCondition p field ''lt'' v ps = (getFieldReference' p field @ '' < ?'', ps @ [v])
       \<and> createCondition p field ''lte'' v ps = (getFieldReference' p field @ '' <= ?'', ps @ [v])
       \<and> createCondition p field ''in'' (JArr (x # xs)) ps
         = (getFieldReference' p field @ '' IN ('' @ placeholders (x # xs) @ '')'', ps @ x # xs)
       \<and> createCondition p field ''nin'' (JArr (x # xs)) ps
         = (getFieldReference' p field @ '' NOT IN ('' @ placeholders (x # xs) @ '')'', ps @ x # xs)
       \<and> createCondition p field ''like'' v ps = (getFieldReference' p field @ '' LIKE ?'', ps @ [v])
       \<and> (operator \<notin> set condition_operators \<longrightarrow>
            createCondition p field operator v ps
              = (getFieldReference' p field @ '' = ?'', ps @ [v])))"
  (is "?escaping \<and> ?plain \<and> ?extended \<and> ?conditions")
proof -
  have escaping: ?escaping
    by (auto simp: getFieldReference'_def escapeIdentifier'_def escape_char'_def
          SqlUtils_escapeIdentifier_def quote_with_def double_char_def
          intro!: arg_cong [where f = concat])
  have plain: ?plain
    by (simp add: parseSimpleCondition'_def parseFieldOperator'_def found_def
          buildComparison'_def buildInCondition'_def buildLikeCondition'_def
          buildRegexCondition'_def buildExistsCondition'_def buildBetweenCondition'_def)
  have extended: ?extended
    by (simp add: createJsonExtractCondition'_def createJsonPathCondition'_def
          createFullTextSearchCondition'_def createArrayContainsCondition'_def
          createTextSearchCondition'_def parseFieldOperator'_def found_def
          split: DatabaseType.splits)
  have conditions: ?conditions
    by (simp add: createCondition_def condition_operators_def)
  show ?thesis
    by (rule conjI [OF escaping conjI [OF plain conjI [OF extended conditions]]])
qed

theorem where_identifier_escaping_witness:
  "getFieldReference' \<lparr>databaseType = sqlite, tableAlias = Some ''users''\<rparr> ''name''
     = ''users.`name`''
   \<and> getFieldReference' \<lparr>databaseType = mysql, tableAlias = Some ''users''\<rparr> ''name''
     = ''users.`name`''
   \<and> SqlUtils_escapeIdentifier ''a`b'' (Some mysql) = ''`a``b`''
   \<and> ''tilde'' \<notin> set condition_operators
   \<and> createCondition \<lparr>databaseType = mysql, tableAlias = Some ''users''\<rparr> ''name'' ''tilde''
       (JObj [(''value'', JStr ''John'')]) []
     = (''users.`name` = ?'', [JObj [(''value'', JStr ''John'')]])
   \<and> parseFieldOperator' \<lparr>databaseType = mysql, tableAlias = Some ''users''\<rparr> ''name''
       ''text_search'' (JObj [(''value'', JStr ''John'')]) []
     = Inr (Some ''users.`name` LIKE ?'', [JStr ''%John%''])"
proof -
  have m: "js_member (JObj [(''value'', JStr ''John'')]) ''value'' = Inr (JStr ''John'')
      \<and> js_member (JObj [(''value'', JStr ''John'')]) ''path'' = Inr JUndefined
      \<and> js_member (JObj [(''value'', JStr ''John'')]) ''values'' = Inr JUndefined"
    by simp
  have c: "''tilde'' \<notin> set condition_operators" by (simp add: condition_operators_def)
  show ?thesis
    using where_identifier_escaping
      [where p = "\<lparr>databaseType = mysql, tableAlias = Some ''users''\<rparr>" and d = sqlite
         and field = "''name''" and a = "''users''" and ident = "''a`b''"
         and v = "JObj [(''value'', JStr ''John'')]" and x = "JStr ''John''"
         and path = JUndefined and operator = "''tilde''" and ps = "[]"] m c
    by (simp add: parser_defs createTextSearchCondition'_def)
qed

subsection \<open>Degenerate operands\<close>

text \<open>
  Claim C6: \<open>in\<close> with an operand that is an empty array or no array yields \<open>1=0\<close>,
  \<open>nin\<close> yields \<open>1=1\<close>; \<open>between\<close> with an operand that is not an array of exactly two
  elements yields \<open>1=0\<close>, \<open>nbetween\<close> yields \<open>1=1\<close>; each binds no parameter and
  none raises. A criteria of this one condition is translated to \<open>WHERE 1=0\<close> or
  \<open>WHERE 1=1\<close> with an empty parameter list.
\<close>

theorem degenerate_operands:
  "(\<not> nonempty_array v \<longrightarrow>
      parseFieldOperator' p field ''in'' v ps = Inr (Some ''1=0'', ps)
      \<and> parseFieldOperator' p field ''nin'' v ps = Inr (Some ''1=1'', ps)
      \<and> buildInCondition' ref v ps False = (''1=0'', ps)
      \<and> buildInCondition' ref v ps True = (''1=1'', ps))
   \<and> (\<not> pair_array v \<longrightarrow>
      parseFieldOperator' p field ''between'' v ps = Inr (Some ''1=0'', ps)
      \<and> parseFieldOperator' p field ''nbetween'' v ps = Inr (Some ''1=1'', ps)
      \<and> buildBetweenCondition' ref v ps False = (''1=0'', ps)
      \<and> buildBetweenCondition' ref v ps True = (''1=1'', ps))
   \<and> (\<not> nonempty_array v \<and> plain_field field \<longrightarrow>
      parse p (operator_criteria field ''in'' v)
        = Inr \<lparr>sql = ''WHERE 1=0'', params = [], hasConditions = True\<rparr>
      \<and> parse p (operator_criteria field ''nin'' v)
        = Inr \<lparr>sql = ''WHERE 1=1'', params = [], hasConditions = True\<rparr>)
   \<and> (\<not> pair_array v \<and> plain_field field \<longrightarrow>
      parse p (operator_criteria field ''between'' v)
        = Inr \<lparr>sql = ''WHERE 1=0'', params = [], hasConditions = True\<rparr>
      \<and> parse p (operator_criteria field ''nbetween'' v)
        = Inr \<lparr>sql = ''WHERE 1=1'', params = [], hasConditions = True\<rparr>)"
proof -
  have a: "parseFieldOperator' p field ''in'' v ps = Inr (Some ''1=0'', ps)
      \<and> parseFieldOperator' p field ''nin'' v ps = Inr (Some ''1=1'', ps)
      \<and> buildInCondition' ref v ps False = (''1=0'', ps)
      \<and> buildInCondition' ref v ps True = (''1=1'', ps)"
    if "\<not> nonempty_array v" for ps
    using that
    by (simp add: nonempty_array_def parseFieldOperator'_def found_def buildInCondition'_def
          split: jsval.splits list.splits)
  have b: "parseFieldOperator' p field ''between'' v ps = Inr (Some ''1=0'', ps)
      \<and> parseFieldOperator' p field ''nbetween'' v ps = Inr (Some ''1=1'', ps)
      \<and> buildBetweenCondition' ref v ps False = (''1=0'', ps)
      \<and> buildBetweenCondition' ref v ps True = (''1=1'', ps)"
    if "\<not> pair_array v" for ps
    using that
    by (simp add: pair_array_def parseFieldOperator'_def found_def buildBetweenCondition'_def
          split: jsval.splits list.splits)
  show ?thesis
    using a b
    by (simp add: parse_operator_criteria where_result_def del: parse.simps)
qed

theorem degenerate_operands_witness:
  "\<not> nonempty_array (JArr []) \<and> \<not> pair_array (JArr [JNum 18])
   \<and> parseFieldOperator' \<lparr>databaseType = mysql, tableAlias = None\<rparr> ''status'' ''in'' (JArr []) []
       = Inr (Some ''1=0'', [])
   \<and> \<not> nonempty_array (JStr ''x'')
   \<and> parseFieldOperator' \<lparr>databaseType = mysql, tableAlias = None\<rparr> ''status'' ''nin'' (JStr ''x'') []
       = Inr (Some ''1=1'', [])
   \<and> plain_field ''status''
   \<and> parse \<lparr>databaseType = mysql, tableAlias = None\<rparr> (JObj [(''status'', JObj [(''in'', JArr [])])])
       = Inr \<lparr>sql = ''WHERE 1=0'', params = [], hasConditions = True\<rparr>"
  using degenerate_operands
      [where v = "JArr []" and p = "\<lparr>databaseType = mysql, tableAlias = None\<rparr>"
         and field = "''status''" and ps = "[]" and ref = "[]"]
    degenerate_operands
      [where v = "JStr ''x''" and p = "\<lparr>databaseType = mysql, tableAlias = None\<rparr>"
         and field = "''status''" and ps = "[]" and ref = "[]"]
  by (simp add: nonempty_array_def pair_array_def plain_field_def operator_criteria_def
        del: parse.simps)

subsection \<open>Null and undefined\<close>

text \<open>
  A literal \<open>null\<close> or \<open>undefined\<close> in a criteria, and \<open>eq\<close> or \<open>ne\<close> with such a
  value in a Condition, test for NULL and bind nothing, whatever the dialect.
\<close>

lemma literal_null:
  assumes "plain_field field" and "v = JNull \<or> v = JUndefined"
  shows "parse p (JObj [(field, v)])
     = Inr \<lparr>sql = ''WHERE '' @ getFieldReference' p field @ '' IS NULL'', params = [],
            hasConditions = True\<rparr>"
  using assms
  by (auto simp: plain_field_def parseSimpleCondition'_def found_def push_condition_def
        getFieldReference'_def escapeIdentifier'_def split: option.splits)

lemma condition_null:
  assumes "field \<noteq> []" and "v = JNull \<or> v = JUndefined"
  shows "parse_Where p (Some (Condition field ''eq'' v))
     = \<lparr>sql = ''WHERE '' @ getFieldReference' p field @ '' IS NULL'', params = [],
        hasConditions = True\<rparr>"
    and "parse_Where p (Some (Condition field ''ne'' v))
     = \<lparr>sql = ''WHERE '' @ getFieldReference' p field @ '' IS NOT NULL'', params = [],
        hasConditions = True\<rparr>"
  using assms
  by (auto simp: parse_Where_def createCondition_def where_result_def
        getFieldReference'_def escapeIdentifier'_def split: option.splits)

text \<open>
  Claim C7: in both front ends and for all dialects, an equality with \<open>null\<close> and one with
  \<open>undefined\<close> give \<open>field IS NULL\<close> with no parameter, and \<open>ne\<close> gives
  \<open>field IS NOT NULL\<close> with no parameter. The operators \<open>eq\<close> and \<open>ne\<close> of the
  plain-criteria front end do not do this: \<open>_parseFieldOperator\<close> hands them to
  \<open>_buildComparison\<close>, which binds the \<open>null\<close> as a parameter of \<open>= ?\<close> and
  \<open>!= ?\<close>, while \<open>createCondition\<close> tests for NULL.
\<close>

theorem ne_null_operator_form:
  "parse \<lparr>databaseType = mysql, tableAlias = None\<rparr>
     (JObj [(''deleted_at'', JObj [(''ne'', JNull)])])
   = Inr \<lparr>sql = ''WHERE `deleted_at` != ?'', params = [JNull], hasConditions = True\<rparr>
   \<and> parse \<lparr>databaseType = mysql, tableAlias = None\<rparr>
     (JObj [(''deleted_at'', JObj [(''eq'', JNull)])])
   = Inr \<lparr>sql = ''WHERE `deleted_at` = ?'', params = [JNull], hasConditions = True\<rparr>
   \<and> parse_Where \<lparr>databaseType = mysql, tableAlias = None\<rparr>
       (Some (Condition ''deleted_at'' ''ne'' JNull))
   = \<lparr>sql = ''WHERE `deleted_at` IS NOT NULL'', params = [], hasConditions = True\<rparr>"
  by (simp add: parser_defs)

subsection \<open>Regular expressions\<close>



























subsection \<open>Objects without a mapping table\<close>

text \<open>
  Claim C9: without a model class and without explicit mappings, \<open>transformObjectToDatabase\<close>
  and \<open>transformObjectFromDatabase\<close> pass every field of the input through under its name.
  This fails: both loops run over the mapping table, which is empty, and the result is the
  empty object.
\<close>

theorem no_mappings_counterexample:
  "transformObjectToDatabase
     \<lparr>modelClass = None, modelFieldMappings = None, resolverDatabaseType = mysql\<rparr>
     (JObj [(''id'', JNum 1), (''name'', JStr ''John'')]) = Inr (JObj [])"
  by (simp add: transformObjectToDatabase_def getFieldMappings_def)

text \<open>
  Claim C9, amended: without a model class and without explicit mappings (or with an empty
  table of them), \<open>transformObjectToDatabase\<close> and \<open>transformObjectFromDatabase\<close>, and their
  aliases \<open>transformToDocument\<close> and \<open>transformToEntity\<close>, return the empty object for
  every input and do not raise.
\<close>

theorem no_mappings_empty_object:
  "modelClass r = None \<and> (modelFieldMappings r = None \<or> modelFieldMappings r = Some [])
   \<longrightarrow> transformObjectToDatabase r obj = Inr (JObj [])
     \<and> transformObjectFromDatabase fromSql r obj = Inr (JObj [])
     \<and> transformToDocument r obj = Inr (JObj [])
     \<and> transformToEntity fromSql r obj = Inr (JObj [])"
  by (auto simp: transformObjectToDatabase_def transformObjectFromDatabase_def
        transformToDocument_def transformToEntity_def getFieldMappings_def)

theorem no_mappings_empty_object_witness:
  "transformObjectFromDatabase (\<lambda>v d. v)
     \<lparr>modelClass = None, modelFieldMappings = None, resolverDatabaseType = mysql\<rparr>
     (JObj [(''user_id'', JNum 1)]) = Inr (JObj [])"
  using no_mappings_empty_object
    [where r = "\<lparr>modelClass = None, modelFieldMappings = None, resolverDatabaseType = mysql\<rparr>"
       and obj = "JObj [(''user_id'', JNum 1)]" and fromSql = "\<lambda>v d. v"]
  by simp

subsection \<open>The shape of a parsed clause\<close>

lemma well_formed_where_result: "well_formed_clause (where_result s ps)"
  by (simp add: well_formed_clause_def where_result_def)

lemma well_formed_no_conditions: "well_formed_clause no_conditions"
  by (simp add: well_formed_clause_def no_conditions_def)

lemma well_formed_parseCondition: "well_formed_clause (parseCondition p c)"
  by (induction p c rule: parseCondition.induct)
     (simp_all add: well_formed_where_result well_formed_no_conditions Let_def split: prod.splits)

lemma well_formed_parseCriteria: "parseCriteria p c = Inr r \<Longrightarrow> well_formed_clause r"
  by (auto simp: no_conditions_def well_formed_clause_def
        split: if_splits sum.splits prod.splits)

lemma parse_cases:
  "parse p w = Inr no_conditions \<or> parse p w = parseCriteria p w
   \<or> (\<exists>c. parse p w = Inr (parseCondition p c))"
  by (cases w) (auto split: option.splits simp del: parseCriteria.simps)

lemma well_formed_parse: "parse p w = Inr r \<Longrightarrow> well_formed_clause r"
  using parse_cases [of p w] well_formed_parseCriteria [of p w r] well_formed_no_conditions
    well_formed_parseCondition [of p]
  by auto

text \<open>An instance of \<open>Where\<close> below a combinator is built and translated as at the top.\<close>

lemma nested_where_instance:
  "parse \<lparr>databaseType = mysql, tableAlias = None\<rparr>
     (JObj [(''$not'', JWhere [] (Some (Condition ''name'' ''eq'' (JStr ''John''))))])
   = Inr \<lparr>sql = ''WHERE NOT (`name` = ?)'', params = [JStr ''John''], hasConditions = True\<rparr>"
  by (simp add: parser_defs)

text \<open>
  Claim C10: every clause that \<open>parse\<close>, \<open>parseCriteria\<close> or the Condition path returns,
  for any input (a plain value, an instance of \<open>Where\<close>, alone or below a combinator),
  has \<open>hasConditions\<close> true exactly when \<open>sql\<close> is not empty, and a non-empty \<open>sql\<close>
  starts with \<open>WHERE \<close>; a falsy input gives the clause with empty \<open>sql\<close>, no parameters
  and \<open>hasConditions\<close> false. Where \<open>parse\<close> returns no clause the code throws a
  \<open>TypeError\<close>.
\<close>

theorem parsed_clause_well_formed:
  "(parse p w = Inr r \<longrightarrow> well_formed_clause r)
   \<and> (parse_arg p a = Inr r \<longrightarrow> well_formed_clause r)
   \<and> (parseCriteria p c = Inr r \<longrightarrow> well_formed_clause r)
   \<and> well_formed_clause (parseCondition p cnd)
   \<and> parse p (JWhere props built) = Inr (parse_Where p built)
   \<and> (\<not> truthy v \<longrightarrow>
        parse p v = Inr \<lparr>sql = [], params = [], hasConditions = False\<rparr>
        \<and> parseCriteria p v = Inr \<lparr>sql = [], params = [], hasConditions = False\<rparr>)
   \<and> parse_Where p None = \<lparr>sql = [], params = [], hasConditions = False\<rparr>"
proof -
  have 0: "parse p w = Inr r \<longrightarrow> well_formed_clause r"
    using well_formed_parse by blast
  have 1: "parse_arg p a = Inr r \<longrightarrow> well_formed_clause r"
    by (cases a)
       (auto simp: parse_Where_def well_formed_no_conditions well_formed_parseCondition
          dest: well_formed_parse split: option.splits simp del: parse.simps)
  have 2: "parseCriteria p c = Inr r \<longrightarrow> well_formed_clause r"
    using well_formed_parseCriteria by blast
  have 3: "\<not> truthy v \<longrightarrow>
        parse p v = Inr \<lparr>sql = [], params = [], hasConditions = False\<rparr>
        \<and> parseCriteria p v = Inr \<lparr>sql = [], params = [], hasConditions = False\<rparr>"
    by (simp add: no_conditions_def)
  have 4: "parse p (JWhere props built) = Inr (parse_Where p built)"
    by (simp add: parse_Where_def split: option.splits)
  show ?thesis
    using 0 1 2 3 4 well_formed_parseCondition by (simp add: parse_Where_def no_conditions_def)
qed

theorem parsed_clause_well_formed_witness:
  "well_formed_clause \<lparr>sql = ''WHERE `a` = ?'', params = [JNum 1], hasConditions = True\<rparr>
   \<and> well_formed_clause \<lparr>sql = ''WHERE NOT (`name` = ?)'', params = [JStr ''John''],
        hasConditions = True\<rparr>
   \<and> \<not> truthy (JNum 0)
   \<and> parse \<lparr>databaseType = mysql, tableAlias = None\<rparr> (JNum 0)
       = Inr \<lparr>sql = [], params = [], hasConditions = False\<rparr>"
proof -
  have e: "parse_arg \<lparr>databaseType = mysql, tableAlias = None\<rparr> (Plain (JObj [(''a'', JNum 1)]))
      = Inr \<lparr>sql = ''WHERE `a` = ?'', params = [JNum 1], hasConditions = True\<rparr>"
    by (simp add: parser_defs)
  have n: "parse \<lparr>databaseType = mysql, tableAlias = None\<rparr>
     (JObj [(''$not'', JWhere [] (Some (Condition ''name'' ''eq'' (JStr ''John''))))])
   = Inr \<lparr>sql = ''WHERE NOT (`name` = ?)'', params = [JStr ''John''], hasConditions = True\<rparr>"
    by (simp add: parser_defs)
  have t: "\<not> truthy (JNum 0)" by simp
  show ?thesis
    using parsed_clause_well_formed
      [where p = "\<lparr>databaseType = mysql, tableAlias = None\<rparr>"
         and a = "Plain (JObj [(''a'', JNum 1)])"
         and r = "\<lparr>sql = ''WHERE `a` = ?'', params = [JNum 1], hasConditions = True\<rparr>"
         and v = "JNum 0"]
      parsed_clause_well_formed
      [where p = "\<lparr>databaseType = mysql, tableAlias = None\<rparr>"
         and w = "JObj [(''$not'', JWhere [] (Some (Condition ''name'' ''eq'' (JStr ''John''))))]"
         and r = "\<lparr>sql = ''WHERE NOT (`name` = ?)'', params = [JStr ''John''],
                   hasConditions = True\<rparr>"]
      e n t
    by simp
qed

end
